theory Spec2Isabelle
  imports Main
begin

section \<open>Outcome classification of an analysis pass (model.py, analyze_file, lines 341-389)\<close>

text \<open>
  At the end of \<open>analyze_file\<close> the status code is chosen by an \<open>if\<close>/\<open>elif\<close> chain over
  the truth values of \<open>bad_escapes\<close> and \<open>bad_delimiters\<close> (lists: true when non-empty),
  \<open>self.qualifier\<close> (a string of at most one character: true when non-empty),
  \<open>too_few_delimiters\<close> (a boolean) and \<open>self.overflow_lines\<close> (a list of line numbers).
  The qualifier is a \<open>char option\<close>: \<open>None\<close> is the empty string.
\<close>

definition outcome_code :: "'e list \<Rightarrow> 'd list \<Rightarrow> char option \<Rightarrow> bool \<Rightarrow> nat list \<Rightarrow> int" where
  "outcome_code bad_escapes bad_delimiters qualifier too_few_delimiters overflow_lines =
     (if bad_escapes \<noteq> [] \<and> bad_delimiters \<noteq> [] then - 1
      else if bad_escapes \<noteq> [] then - 2
      else if bad_delimiters \<noteq> [] \<and> qualifier = None \<and> \<not> too_few_delimiters then - 3
      else if bad_delimiters \<noteq> [] \<and> too_few_delimiters then - 4
      else if bad_delimiters \<noteq> [] \<and> qualifier \<noteq> None then - 5
      else if bad_delimiters = [] \<and> bad_escapes = [] then
        (if overflow_lines \<noteq> [] \<and> qualifier = None then - 6 else 1)
      else - 7)"

text \<open>
  The decision table of section 4.6 of the specification, row by row in the
  specification's words, to be compared with the chain above: \<open>spec_table_row c\<close> is the
  condition the table gives for code \<open>c\<close>. "Bad escapes only" is bad escapes and no bad
  delimiters, "bad delimiters only" is bad delimiters and no bad escapes, the
  classification is \<open>too_few\<close> when \<open>too_few_delimiters\<close> is true and \<open>too_many\<close> otherwise,
  and "overflow without qualifier" is overflow lines and no qualifier. The row of \<open>-7\<close>
  is "none of the above combinations".
\<close>

definition spec_table_row ::
  "int \<Rightarrow> 'e list \<Rightarrow> 'd list \<Rightarrow> char option \<Rightarrow> bool \<Rightarrow> nat list \<Rightarrow> bool" where
  "spec_table_row c bad_escapes bad_delimiters qualifier too_few_delimiters overflow_lines =
     (let has_bad_escapes = (bad_escapes \<noteq> []);
          has_bad_delimiters = (bad_delimiters \<noteq> []);
          has_qualifier = (qualifier \<noteq> None);
          too_few = too_few_delimiters;
          overflow_without_qualifier = (overflow_lines \<noteq> [] \<and> qualifier = None);
          row1 = (\<not> has_bad_escapes \<and> \<not> has_bad_delimiters \<and> \<not> overflow_without_qualifier);
          row_1 = (has_bad_escapes \<and> has_bad_delimiters);
          row_2 = (has_bad_escapes \<and> \<not> has_bad_delimiters);
          row_3 = (has_bad_delimiters \<and> \<not> has_bad_escapes \<and> \<not> has_qualifier \<and> \<not> too_few);
          row_4 = (has_bad_delimiters \<and> \<not> has_bad_escapes \<and> too_few);
          row_5 = (has_bad_delimiters \<and> \<not> has_bad_escapes \<and> has_qualifier);
          row_6 = (\<not> has_bad_escapes \<and> \<not> has_bad_delimiters \<and> overflow_lines \<noteq> []
                   \<and> \<not> has_qualifier)
      in if c = 1 then row1
         else if c = - 1 then row_1
         else if c = - 2 then row_2
         else if c = - 3 then row_3
         else if c = - 4 then row_4
         else if c = - 5 then row_5
         else if c = - 6 then row_6
         else if c = - 7 then \<not> (row1 \<or> row_1 \<or> row_2 \<or> row_3 \<or> row_4 \<or> row_5 \<or> row_6)
         else False)"

section \<open>Python string operations\<close>

text \<open>
  A Python \<open>str\<close> is a list of characters. The operations below are the ones the source
  uses, with non-negative positions; \<open>str.find\<close> returns \<open>-1\<close> when there is no
  occurrence, which is \<open>None\<close> here, and \<open>str.index\<close> raises \<open>ValueError\<close> there.
\<close>

definition starts_with :: "'a list \<Rightarrow> 'a list \<Rightarrow> bool" where
  "starts_with sub s = (take (length sub) s = sub)"

fun find_first :: "'a list \<Rightarrow> 'a list \<Rightarrow> nat option" where
  "find_first sub [] = (if sub = [] then Some 0 else None)"
| "find_first sub (c # cs) =
     (if starts_with sub (c # cs) then Some 0 else map_option Suc (find_first sub cs))"

definition str_find :: "'a list \<Rightarrow> 'a list \<Rightarrow> nat \<Rightarrow> nat option" where
  "str_find s sub start =
     (if length s < start then None
      else map_option (\<lambda>i. start + i) (find_first sub (drop start s)))"

definition str_contains :: "'a list \<Rightarrow> 'a list \<Rightarrow> bool" where
  "str_contains sub s = (find_first sub s \<noteq> None)"

fun str_rfind :: "'a list \<Rightarrow> 'a list \<Rightarrow> nat option" where
  "str_rfind [] sub = (if sub = [] then Some 0 else None)"
| "str_rfind (c # cs) sub =
     (case str_rfind cs sub of
        Some i \<Rightarrow> Some (Suc i)
      | None \<Rightarrow> if starts_with sub (c # cs) then Some 0 else None)"

definition slice :: "'a list \<Rightarrow> nat \<Rightarrow> nat \<Rightarrow> 'a list" where
  "slice s a b = take (b - a) (drop a s)"

fun count_skip :: "'a list \<Rightarrow> nat \<Rightarrow> 'a list \<Rightarrow> nat" where
  "count_skip sub k [] = 0"
| "count_skip sub k (c # cs) =
     (if 0 < k then count_skip sub (k - 1) cs
      else if starts_with sub (c # cs) then Suc (count_skip sub (length sub - 1) cs)
      else count_skip sub 0 cs)"

definition str_count :: "'a list \<Rightarrow> 'a list \<Rightarrow> nat" where
  "str_count s sub = (if sub = [] then Suc (length s) else count_skip sub 0 s)"

fun replace_skip :: "'a list \<Rightarrow> 'a list \<Rightarrow> nat \<Rightarrow> 'a list \<Rightarrow> 'a list" where
  "replace_skip old new k [] = []"
| "replace_skip old new k (c # cs) =
     (if 0 < k then replace_skip old new (k - 1) cs
      else if starts_with old (c # cs) then new @ replace_skip old new (length old - 1) cs
      else c # replace_skip old new 0 cs)"

definition str_replace :: "'a list \<Rightarrow> 'a list \<Rightarrow> 'a list \<Rightarrow> 'a list" where
  "str_replace s old new =
     (if old = [] then new @ concat (map (\<lambda>c. c # new) s) else replace_skip old new 0 s)"

fun split_skip :: "'a list \<Rightarrow> nat \<Rightarrow> 'a list \<Rightarrow> 'a list \<Rightarrow> 'a list list" where
  "split_skip sep k cur [] = [cur]"
| "split_skip sep k cur (c # cs) =
     (if 0 < k then split_skip sep (k - 1) cur cs
      else if starts_with sep (c # cs) then cur # split_skip sep (length sep - 1) [] cs
      else split_skip sep 0 (cur @ [c]) cs)"

text \<open>\<open>str.split(sep)\<close> for a non-empty separator (an empty one raises \<open>ValueError\<close>).\<close>

definition str_split :: "'a list \<Rightarrow> 'a list \<Rightarrow> 'a list list" where
  "str_split s sep = split_skip sep 0 [] s"

text \<open>\<open>line.rstrip("\r\n")\<close>: the carriage returns and line feeds at the end are removed.\<close>

definition rstrip_crlf :: "string \<Rightarrow> string" where
  "rstrip_crlf line = rev (dropWhile (\<lambda>c. c = CHR 0x0D \<or> c = CHR 0x0A) (rev line))"

section \<open>TextDataDoctor (model.py, lines 74-96 and 168-178)\<close>

text \<open>
  The exceptions the modelled code raises. \<open>TooManyLoops\<close> is the
  \<open>Exception("Too many while loops")\<close> of \<open>get_qualifier_values\<close>, \<open>RegexError\<close> is \<open>re.error\<close>.
\<close>

datatype py_error =
  AttributeError | ValueError | IndexError | UnicodeDecodeError | RecursionError | RegexError
  | TooManyLoops

text \<open>
  The fields of a \<open>TextDataDoctor\<close>. A doctor is built only after
  \<open>validate_file_options\<close> has accepted the options (viewmodel.py, \<open>analyze_file\<close>): the
  delimiter is one character and the qualifier is empty or one character, so they are a
  \<open>char\<close> and a \<open>char option\<close> (\<open>None\<close> the empty string). The compiled record-start
  pattern is the predicate "the pattern matches at the start of this line". The path and
  the encoding only serve to open the file; the model is given the lines read.
\<close>

record doctor =
  record_start_regex :: "string \<Rightarrow> bool"
  delimiter :: char
  qualifier :: "char option"
  overflow_lines :: "nat list"
  all_qualified :: bool
  header_line :: string
  columns :: "string list"
  header_delimiter_count :: nat

definition qualifier_str :: "char option \<Rightarrow> string" where
  "qualifier_str q = (case q of None \<Rightarrow> [] | Some c \<Rightarrow> [c])"

text \<open>
  \<open>__init__\<close>; \<open>first_line\<close> is the first line of the file as \<open>readline\<close> gives it. The flag
  \<open>all_qualified\<close> is set to \<open>True\<close> (the source comments the line with "Should be False").
\<close>

definition TextDataDoctor_init ::
  "(string \<Rightarrow> bool) \<Rightarrow> string \<Rightarrow> char \<Rightarrow> char option \<Rightarrow> doctor" where
  "TextDataDoctor_init regex first_line d q =
     \<lparr> record_start_regex = regex,
       delimiter = d,
       qualifier = q,
       overflow_lines = [],
       all_qualified = True,
       header_line = rstrip_crlf first_line,
       columns = map (\<lambda>column. str_replace column (qualifier_str q) [])
                   (str_split (rstrip_crlf first_line) [d]),
       header_delimiter_count = str_count (rstrip_crlf first_line) [d] \<rparr>"

definition all_qualified_pattern :: "doctor \<Rightarrow> string" where
  "all_qualified_pattern self =
     qualifier_str (qualifier self) @ [delimiter self] @ qualifier_str (qualifier self)"

definition start_pattern :: "doctor \<Rightarrow> string" where
  "start_pattern self = delimiter self # qualifier_str (qualifier self)"

definition end_pattern :: "doctor \<Rightarrow> string" where
  "end_pattern self = qualifier_str (qualifier self) @ [delimiter self]"

section \<open>Qualified-value extraction (model.py, lines 184-225)\<close>

definition is_not_end_qualified_values :: "doctor \<Rightarrow> string \<Rightarrow> nat \<Rightarrow> nat \<Rightarrow> bool" where
  "is_not_end_qualified_values self record start end' =
     (str_contains (start_pattern self) (slice record start end')
      \<and> str_contains (end_pattern self) (slice record start end')
      \<and> start < end')"

text \<open>
  \<open>find_value_end\<close> calls itself on the interpreter's stack, once for every end pattern it
  skips, and the interpreter raises \<open>RecursionError\<close> when the stack is full. How many
  frames are left depends on the interpreter and on the callers, not on the repository:
  \<open>frames\<close> is the number of nested calls of \<open>find_value_end\<close> the stack still has room
  for when \<open>get_qualifier_values\<close> calls it.
\<close>

fun find_value_end :: "nat \<Rightarrow> doctor \<Rightarrow> string \<Rightarrow> nat \<Rightarrow> py_error + nat" where
  "find_value_end frames self record end_position =
     (if frames = 0 then Inl RecursionError
      else
        (case str_find record (end_pattern self) (end_position + 1) of
           None \<Rightarrow> Inr end_position
         | Some next_end \<Rightarrow>
             (case str_find record (start_pattern self) (end_position + 1) of
                None \<Rightarrow> find_value_end (frames - 1) self record next_end
              | Some next_start \<Rightarrow>
                  if next_end < next_start then find_value_end (frames - 1) self record next_end
                  else Inr end_position)))"

declare find_value_end.simps [simp del]

text \<open>
  The \<open>try\<close> block of the \<open>while\<close> loop of \<open>get_qualifier_values\<close>: the value it yields and
  the next \<open>start\<close>, or the exception it raises. Both \<open>record.index\<close> calls raise
  \<open>ValueError\<close> when there is no occurrence, and \<open>find_value_end\<close> may raise
  \<open>RecursionError\<close>; the \<open>except IndexError\<close> clause catches neither, and no statement of
  the block raises \<open>IndexError\<close>.
\<close>

definition loop_body :: "nat \<Rightarrow> doctor \<Rightarrow> string \<Rightarrow> nat \<Rightarrow> py_error + (string \<times> nat)" where
  "loop_body frames self record start =
     (case str_find record (start_pattern self) start of
        None \<Rightarrow> Inl ValueError
      | Some value_start \<Rightarrow>
          (case str_find record (end_pattern self) value_start of
             None \<Rightarrow> Inl ValueError
           | Some end_position \<Rightarrow>
               (case find_value_end frames self record end_position of
                  Inl e \<Rightarrow> Inl e
                | Inr value_end \<Rightarrow> Inr (slice record (value_start + 2) value_end, value_end + 1))))"

text \<open>
  The \<open>while\<close> loop of \<open>get_qualifier_values\<close>. Its state is \<open>start\<close>, \<open>loop_counter\<close> and
  the values yielded so far; the result is the values yielded and the exception that
  ended the generator, if any. The value is yielded before the counter is incremented
  and tested. Nothing in the data bounds the loop: the recursion is well-founded by the
  counter alone.
\<close>

function qualifier_values_loop ::
  "nat \<Rightarrow> doctor \<Rightarrow> string \<Rightarrow> nat \<Rightarrow> nat \<Rightarrow> nat \<Rightarrow> string list \<Rightarrow> string list \<times> py_error option"
where
  "qualifier_values_loop frames self record end' start loop_counter yielded =
     (if is_not_end_qualified_values self record start end' then
        (case loop_body frames self record start of
           Inl e \<Rightarrow> (yielded, Some e)
         | Inr (val, start') \<Rightarrow>
             (if 100 < loop_counter + 1 then (yielded @ [val], Some TooManyLoops)
              else qualifier_values_loop frames self record end' start' (loop_counter + 1)
                     (yielded @ [val])))
      else (yielded, None))"
  by pat_completeness auto
termination
  by (relation "measure (\<lambda>(frames, self, record, end', start, loop_counter, yielded).
                           101 - loop_counter)")
     auto

declare qualifier_values_loop.simps [simp del]

text \<open>
  The same loop without its counter, run for at most \<open>n\<close> iterations: \<open>Stopped\<close> when the
  loop condition became false (no exception) or the \<open>try\<close> block raised, \<open>Scanning\<close> when
  all \<open>n\<close> iterations ran and the loop has not ended. It is what the ceiling is measured
  against.
\<close>

datatype scan = Scanning nat "string list" | Stopped "string list" "py_error option"

fun scan_steps :: "nat \<Rightarrow> doctor \<Rightarrow> string \<Rightarrow> nat \<Rightarrow> nat \<Rightarrow> nat \<Rightarrow> string list \<Rightarrow> scan" where
  "scan_steps frames self record end' 0 start yielded = Scanning start yielded"
| "scan_steps frames self record end' (Suc n) start yielded =
     (if is_not_end_qualified_values self record start end' then
        (case loop_body frames self record start of
           Inl e \<Rightarrow> Stopped yielded (Some e)
         | Inr (val, start') \<Rightarrow> scan_steps frames self record end' n start' (yielded @ [val]))
      else Stopped yielded None)"

text \<open>
  \<open>get_qualifier_values\<close>: the two \<open>AttributeError\<close> checks, the leading value, the
  trailing value, then the loop. \<open>record[1:].index\<close> and \<open>record[:-1].rindex\<close> raise
  \<open>ValueError\<close> when the sliced string has no occurrence.
\<close>

definition get_qualifier_values ::
  "nat \<Rightarrow> doctor \<Rightarrow> string \<Rightarrow> string list \<times> py_error option" where
  "get_qualifier_values frames self record =
     (case qualifier self of
        None \<Rightarrow> ([], Some AttributeError)
      | Some q \<Rightarrow>
          if record = [] then ([], Some AttributeError)
          else
            (case (if hd record = q \<and> str_contains (end_pattern self) record
                   then (case find_first (end_pattern self) (tl record) of
                           None \<Rightarrow> Inl ValueError
                         | Some temp_start \<Rightarrow> Inr ([slice record 1 temp_start], temp_start))
                   else Inr ([], 0)) of
               Inl e \<Rightarrow> ([], Some e)
             | Inr (yielded1, start) \<Rightarrow>
                 (case (if last record = q \<and> str_contains (start_pattern self) record
                        then (case str_rfind (butlast record) (start_pattern self) of
                                None \<Rightarrow> Inl ValueError
                              | Some last_pattern \<Rightarrow>
                                  Inr ([slice record (last_pattern + 1) (length record - 1)],
                                       last_pattern + 1))
                        else Inr ([], length record)) of
                    Inl e \<Rightarrow> (yielded1, Some e)
                  | Inr (yielded2, end') \<Rightarrow>
                      qualifier_values_loop frames self record end' start 0
                        (yielded1 @ yielded2))))"

section \<open>Escape check and repair (model.py, lines 27-41 and 227-236)\<close>

datatype BadEscape = BadEscape (be_qualifier: string) (be_record: string) (be_values: "string list")

definition escape_qualifiers :: "BadEscape \<Rightarrow> string \<Rightarrow> string \<Rightarrow> string" where
  "escape_qualifiers self accumulator val =
     str_replace accumulator
       (be_qualifier self @ val @ be_qualifier self)
       (be_qualifier self
          @ str_replace val (be_qualifier self) (be_qualifier self @ be_qualifier self)
          @ be_qualifier self)"

definition fix_record :: "BadEscape \<Rightarrow> string" where
  "fix_record self = foldl (escape_qualifiers self) (be_record self) (be_values self)"

text \<open>
  \<open>non_escaped_qualifiers\<close> searches the value with the regular expression
  \<open>(?<=[^q])q+(?=[^q])\<close>, the qualifier character \<open>q\<close> pasted in unescaped. For a
  character that regular expressions read as itself, a match is a run of \<open>q\<close> that has a
  character other than \<open>q\<close> right before it and right after it, so it is a maximal run of
  \<open>q\<close> that is neither at the start nor at the end of the value. \<open>char_runs\<close> cuts the
  value into its maximal runs of equal kind (qualifier or not) with their lengths; the
  matches are the qualifier runs that are neither the first nor the last run.
\<close>

fun char_runs :: "char \<Rightarrow> string \<Rightarrow> (bool \<times> nat) list" where
  "char_runs q [] = []"
| "char_runs q (c # cs) =
     (case char_runs q cs of
        [] \<Rightarrow> [(c = q, 1)]
      | (b, n) # rest \<Rightarrow> if b = (c = q) then (b, Suc n) # rest else (c = q, 1) # (b, n) # rest)"

definition qualifier_matches :: "char \<Rightarrow> string \<Rightarrow> nat list" where
  "qualifier_matches q val = map snd (filter fst (butlast (tl (char_runs q val))))"

text \<open>
  With the qualifier \<open>.\<close> the expression is \<open>(?<=[^.]).+(?=[^.])\<close>: a match starts after a
  character other than \<open>.\<close>, runs over characters other than the line feed as far as it
  can, and must be followed by a character other than \<open>.\<close>. \<open>prev\<close> is the character
  before the position read. A match that reaches a line feed is the whole rest of the
  line; at the end of the value it stops before the last character other than \<open>.\<close>.
\<close>

function dot_matches :: "char option \<Rightarrow> string \<Rightarrow> string list" where
  "dot_matches prev [] = []"
| "dot_matches prev (c # cs) =
     (if prev \<noteq> None \<and> prev \<noteq> Some (CHR ''.'') \<and> c \<noteq> CHR 0x0A then
        (if dropWhile (\<lambda>x. x \<noteq> CHR 0x0A) cs \<noteq> [] then
           (c # takeWhile (\<lambda>x. x \<noteq> CHR 0x0A) cs)
             # dot_matches (Some (last (c # takeWhile (\<lambda>x. x \<noteq> CHR 0x0A) cs)))
                 (dropWhile (\<lambda>x. x \<noteq> CHR 0x0A) cs)
         else
           (case rev (dropWhile (\<lambda>x. x = CHR ''.'') (rev cs)) of
              [] \<Rightarrow> []
            | k # ks \<Rightarrow> [c # butlast (k # ks)]))
      else dot_matches (Some c) cs)"
  by pat_completeness auto
termination
  by (relation "measure (\<lambda>(prev, s). length s)")
     (auto simp: length_dropWhile_le less_Suc_eq_le)

text \<open>
  The qualifiers that regular expressions do not read as themselves: with \<open>$\<close>, \<open>(\<close>, \<open>)\<close>,
  \<open>[\<close>, the backslash, \<open>^\<close> or \<open>|\<close> the expression does not compile and \<open>re.findall\<close> raises \<open>re.error\<close>;
  with \<open>*\<close>, \<open>+\<close> or \<open>?\<close> the quantifier that follows the lookbehind is read as a possessive
  one (Python 3.11) and every match is empty, so no match has an odd count.
\<close>

definition non_escaped_qualifiers :: "char \<Rightarrow> string \<Rightarrow> py_error + bool" where
  \<open>non_escaped_qualifiers q val =
     (if q \<in> set (''$()[^|'' @ [CHR 0x5C]) then Inl RegexError
      else if q \<in> set ''*+?'' then Inr False
      else if q = CHR ''.'' then
        Inr (list_ex (\<lambda>m. count_list m q mod 2 \<noteq> 0) (dot_matches None val))
      else Inr (list_ex (\<lambda>count. count mod 2 \<noteq> 0) (qualifier_matches q val)))\<close>

text \<open>
  \<open>[check for check in checks if self.non_escaped_qualifiers(check)]\<close>: the values for
  which the check is true, or the exception of the first call that raises.
\<close>

fun offending_values :: "char \<Rightarrow> string list \<Rightarrow> py_error + string list" where
  "offending_values q [] = Inr []"
| "offending_values q (check # checks) =
     (case non_escaped_qualifiers q check of
        Inl e \<Rightarrow> Inl e
      | Inr bad \<Rightarrow>
          (case offending_values q checks of
             Inl e \<Rightarrow> Inl e
           | Inr result \<Rightarrow> Inr (if bad then check # result else result)))"

section \<open>Record reassembly (model.py, get_records, lines 238-287)\<close>

text \<open>
  \<open>\w\<close> of a \<open>str\<close> pattern: letters, digits and the underscore. On ASCII the class is
  written out; for the other characters it is Python's Unicode table, which is not part
  of the repository and is the parameter \<open>uw\<close>.
\<close>

definition word_char :: "(char \<Rightarrow> bool) \<Rightarrow> char \<Rightarrow> bool" where
  "word_char uw c =
     (let n = (of_char c :: nat) in
      if n < 128 then (48 \<le> n \<and> n \<le> 57) \<or> (65 \<le> n \<and> n \<le> 90) \<or> n = 95 \<or> (97 \<le> n \<and> n \<le> 122)
      else uw c)"

text \<open>
  \<open>re.match(r"^\w+[).] ", line)\<close>: one or more word characters, then \<open>)\<close> or \<open>.\<close>, then a
  space. Neither \<open>)\<close> nor \<open>.\<close> is a word character, so the word characters matched are
  the whole leading run.
\<close>

definition list_marker :: "(char \<Rightarrow> bool) \<Rightarrow> string \<Rightarrow> bool" where
  "list_marker uw line =
     (takeWhile (word_char uw) line \<noteq> []
      \<and> (case dropWhile (word_char uw) line of
           c1 # c2 # rest \<Rightarrow> (c1 = CHR 0x29 \<or> c1 = CHR 0x2E) \<and> c2 = CHR 0x20
         | _ \<Rightarrow> False))"

text \<open>
  \<open>check_exp\<close> of \<open>get_records\<close> for a non-empty buffer (\<open>record[-1]\<close> raises \<open>IndexError\<close>
  on an empty one, which \<open>get_records_loop\<close> tests first): the buffer does not end with
  the qualifier, a start pattern occurs, and the last one lies after the last end
  pattern (\<open>rfind\<close> gives \<open>-1\<close> when there is none).
\<close>

definition check_exp :: "doctor \<Rightarrow> string \<Rightarrow> bool" where
  "check_exp self record =
     (Some (last record) \<noteq> qualifier self
      \<and> (case str_rfind record (start_pattern self) of
           None \<Rightarrow> False
         | Some last_start \<Rightarrow>
             (case str_rfind record (end_pattern self) of
                None \<Rightarrow> True
              | Some last_end \<Rightarrow> last_end < last_start)))"

definition add_overflow :: "doctor \<Rightarrow> nat \<Rightarrow> doctor" where
  "add_overflow self i = self\<lparr>overflow_lines := overflow_lines self @ [i + 2]\<rparr>"

text \<open>
  The \<open>for\<close> loop of \<open>get_records\<close> over \<open>enumerate(f)\<close>: \<open>i\<close> is the index of the line, the
  lines are the physical lines after the header as the text reader gives them. The
  result is the doctor (its \<open>overflow_lines\<close> updated), the records yielded, and the
  exception that ended the generator, if any. After the last line the buffer is
  yielded, empty or not.
\<close>

fun get_records_loop ::
  "(char \<Rightarrow> bool) \<Rightarrow> doctor \<Rightarrow> nat \<Rightarrow> string \<Rightarrow> string list \<Rightarrow> string list
     \<Rightarrow> doctor \<times> string list \<times> py_error option" where
  "get_records_loop uw self i record [] yielded = (self, yielded @ [record], None)"
| "get_records_loop uw self i record (raw # rest) yielded =
     (let line = rstrip_crlf raw in
      if record_start_regex self line then
        get_records_loop uw self (i + 1) line rest
          (if record \<noteq> [] then yielded @ [record] else yielded)
      else if line = [] then
        get_records_loop uw (add_overflow self i) (i + 1) (record @ CHR 0x0D # line) rest yielded
      else if qualifier self \<noteq> None \<and> record = [] then
        (self, yielded, Some IndexError)
      else if qualifier self \<noteq> None \<and> check_exp self record then
        get_records_loop uw (add_overflow self i) (i + 1) (record @ CHR 0x0D # line) rest yielded
      else if list_marker uw line then
        get_records_loop uw (add_overflow self i) (i + 1) (record @ CHR 0x0D # line) rest yielded
      else if str_count line [delimiter self] \<noteq> header_delimiter_count self then
        get_records_loop uw (add_overflow self i) (i + 1) (record @ CHR 0x0D # line) rest yielded
      else
        get_records_loop uw self (i + 1) line rest (yielded @ [record]))"

definition get_records ::
  "(char \<Rightarrow> bool) \<Rightarrow> doctor \<Rightarrow> string list \<Rightarrow> doctor \<times> string list \<times> py_error option" where
  "get_records uw self lines = get_records_loop uw (self\<lparr>overflow_lines := []\<rparr>) 0 [] lines []"

section \<open>Analysis pass (model.py, analyze_file, lines 289-401)\<close>

text \<open>
  \<open>re.sub(f"{self.delimiter}$", "", record)\<close>, the delimiter pasted in unescaped. \<open>$\<close>
  matches at the end of the string and before a line feed that ends the string, so for
  a character that regular expressions read as itself a delimiter there is removed.
  The other characters: with \<open>(\<close>, \<open>)\<close>, \<open>*\<close>, \<open>+\<close>, \<open>?\<close> or \<open>[\<close> the expression does not
  compile and \<open>re.sub\<close> raises \<open>re.error\<close>; with \<open>|\<close>, \<open>^\<close> or \<open>$\<close> it matches empty strings
  only and the record is unchanged; with \<open>.\<close> the character at the end (or before the
  final line feed) is removed whatever it is, a line feed apart; with the backslash the
  expression is an escaped \<open>$\<close> and every \<open>$\<close> of the record is removed; a line-feed delimiter is
  removed at the end, twice when the record ends with two.
\<close>

definition strip_trailing_delimiter :: "char \<Rightarrow> string \<Rightarrow> py_error + string" where
  \<open>strip_trailing_delimiter d record =
     (if d \<in> set ''()*+?['' then Inl RegexError
      else if d \<in> set ''|^$'' then Inr record
      else if d = CHR ''.'' then
        Inr (if record \<noteq> [] \<and> last record \<noteq> CHR 0x0A then butlast record
             else if 2 \<le> length record \<and> last record = CHR 0x0A
                     \<and> last (butlast record) \<noteq> CHR 0x0A
             then butlast (butlast record) @ [CHR 0x0A]
             else record)
      else if d = CHR 0x5C then Inr (filter (\<lambda>c. c \<noteq> CHR ''$'') record)
      else if d = CHR 0x0A then
        Inr (if 2 \<le> length record \<and> last record = CHR 0x0A \<and> last (butlast record) = CHR 0x0A
             then butlast (butlast record)
             else if record \<noteq> [] \<and> last record = CHR 0x0A then butlast record
             else record)
      else
        Inr (if record \<noteq> [] \<and> last record = d then butlast record
             else if 2 \<le> length record \<and> last record = CHR 0x0A \<and> last (butlast record) = d
             then butlast (butlast record) @ [CHR 0x0A]
             else record))\<close>

text \<open>
  The extraction of qualified values is a parameter of the pass, so that a property can
  speak about whether the pass depends on it; \<open>analyze_file\<close> below passes
  \<open>get_qualifier_values\<close>, as the source calls it (with the stack room \<open>frames\<close> of
  \<open>find_value_end\<close>). A generator that raises makes the statement consuming it raise.
\<close>

type_synonym extractor = "doctor \<Rightarrow> string \<Rightarrow> string list \<times> py_error option"

definition qualifier_in :: "doctor \<Rightarrow> string \<Rightarrow> bool" where
  "qualifier_in self record = (case qualifier self of None \<Rightarrow> False | Some q \<Rightarrow> q \<in> set record)"

text \<open>The local variables of the \<open>for\<close> loop of \<open>analyze_file\<close>, and the text written so far.\<close>

record analysis =
  bad_escapes :: "BadEscape list"
  bad_delimiters :: "string list"
  too_few_delimiters :: bool
  written :: string

text \<open>
  Lines 305-316: the escape check of one record. The result is the record (with its
  trailing delimiter removed in the all-qualified mode), the new list of bad escapes and
  \<open>is_bad_record\<close>.
\<close>

definition escape_step ::
  "extractor \<Rightarrow> doctor \<Rightarrow> string \<Rightarrow> BadEscape list \<Rightarrow> py_error + (string \<times> BadEscape list \<times> bool)" where
  "escape_step gqv self record0 bes =
     (case qualifier self of
        None \<Rightarrow> Inr (record0, bes, False)
      | Some q \<Rightarrow>
          if q \<notin> set record0 then Inr (record0, bes, False)
          else
            (case (if all_qualified self
                   then strip_trailing_delimiter (delimiter self) record0 else Inr record0) of
               Inl e \<Rightarrow> Inl e
             | Inr record \<Rightarrow>
                 (case (if all_qualified self
                        then Inr (str_split (slice record 1 (length record - 1))
                                    (all_qualified_pattern self))
                        else (case gqv self record of
                                (checks, None) \<Rightarrow> Inr checks
                              | (checks, Some e) \<Rightarrow> Inl e)) of
                    Inl e \<Rightarrow> Inl e
                  | Inr checks \<Rightarrow>
                      (case offending_values q checks of
                         Inl e \<Rightarrow> Inl e
                       | Inr result \<Rightarrow>
                           if result \<noteq> []
                           then Inr (record, bes @ [BadEscape [q] record result], True)
                           else Inr (record, bes, False)))))"

text \<open>
  Lines 318-337: the delimiter count of one record. The result is the new list of bad
  delimiters, \<open>too_few_delimiters\<close> and \<open>is_bad_record\<close>.
\<close>

definition delimiter_step ::
  "extractor \<Rightarrow> doctor \<Rightarrow> string \<Rightarrow> string list \<Rightarrow> bool \<Rightarrow> bool
     \<Rightarrow> py_error + (string list \<times> bool \<times> bool)" where
  "delimiter_step gqv self record bds too_few is_bad_record =
     (let delimiter_count = int (str_count record [delimiter self]);
          expected = int (header_delimiter_count self) in
      if delimiter_count \<noteq> expected then
        (if qualifier_in self record then
           (case (if all_qualified self
                  then Inr (int (length (str_split record (all_qualified_pattern self))) - 1)
                  else (case gqv self record of
                          (vals, None) \<Rightarrow>
                            Inr (delimiter_count
                                   - sum_list (map (\<lambda>v. int (str_count v [delimiter self])) vals))
                        | (vals, Some e) \<Rightarrow> Inl e)) of
              Inl e \<Rightarrow> Inl e
            | Inr recount \<Rightarrow>
                if recount \<noteq> expected then Inr (bds @ [record], recount < expected, True)
                else Inr (bds, too_few, is_bad_record))
         else Inr (bds @ [record], delimiter_count < expected, True))
      else Inr (bds, too_few, is_bad_record))"

definition analyze_record ::
  "extractor \<Rightarrow> doctor \<Rightarrow> analysis \<Rightarrow> string \<Rightarrow> py_error + analysis" where
  "analyze_record gqv self st record0 =
     (case escape_step gqv self record0 (bad_escapes st) of
        Inl e \<Rightarrow> Inl e
      | Inr (record, bes, is_bad1) \<Rightarrow>
          (case delimiter_step gqv self record (bad_delimiters st) (too_few_delimiters st) is_bad1 of
             Inl e \<Rightarrow> Inl e
           | Inr (bds, too_few, is_bad_record) \<Rightarrow>
               Inr \<lparr> bad_escapes = bes, bad_delimiters = bds, too_few_delimiters = too_few,
                     written = (if \<not> is_bad_record then written st @ record @ [CHR 0x0A]
                                else written st) \<rparr>))"

fun analyze_records ::
  "extractor \<Rightarrow> doctor \<Rightarrow> analysis \<Rightarrow> string list \<Rightarrow> py_error + analysis" where
  "analyze_records gqv self st [] = Inr st"
| "analyze_records gqv self st (record # rest) =
     (case analyze_record gqv self st record of
        Inl e \<Rightarrow> Inl e
      | Inr st' \<Rightarrow> analyze_records gqv self st' rest)"

text \<open>
  The \<open>AnalyzeResult\<close>; \<open>temp_file\<close> is the text of the file written. The message that goes
  with each code is left out.
\<close>

record AnalyzeResult =
  code :: int
  temp_file :: string
  result_delimiter :: char
  result_columns :: "string list"
  result_overflow_lines :: "nat list"
  result_bad_delimiters :: "string list"
  result_bad_escapes :: "BadEscape list"

text \<open>
  \<open>analyze_file\<close>. The records are consumed as \<open>get_records\<close> yields them, so an exception of
  the loop body on a yielded record comes before an exception that ends \<open>get_records\<close>;
  either one ends the pass without a result. \<open>writelines\<close> writes the repaired records one
  after the other as they are: it adds no line terminator.
\<close>

definition analyze_file_with ::
  "extractor \<Rightarrow> (char \<Rightarrow> bool) \<Rightarrow> doctor \<Rightarrow> string list \<Rightarrow> py_error + AnalyzeResult" where
  "analyze_file_with gqv uw self lines =
     (case get_records uw self lines of
        (self', records, raised) \<Rightarrow>
          (case analyze_records gqv self
                  \<lparr> bad_escapes = [], bad_delimiters = [], too_few_delimiters = False,
                    written = header_line self @ [CHR 0x0A] \<rparr> records of
             Inl e \<Rightarrow> Inl e
           | Inr st \<Rightarrow>
               (case raised of
                  Some e \<Rightarrow> Inl e
                | None \<Rightarrow>
                    Inr \<lparr> code = outcome_code (bad_escapes st) (bad_delimiters st) (qualifier self)
                                 (too_few_delimiters st) (overflow_lines self'),
                          temp_file = written st @ concat (map fix_record (bad_escapes st)),
                          result_delimiter = delimiter self,
                          result_columns = columns self,
                          result_overflow_lines = overflow_lines self',
                          result_bad_delimiters = bad_delimiters st,
                          result_bad_escapes = bad_escapes st \<rparr>)))"

definition analyze_file ::
  "nat \<Rightarrow> (char \<Rightarrow> bool) \<Rightarrow> doctor \<Rightarrow> string list \<Rightarrow> py_error + AnalyzeResult" where
  "analyze_file frames uw self lines =
     analyze_file_with (get_qualifier_values frames) uw self lines"

section \<open>Example files\<close>

text \<open>
  Concrete inputs for the evaluations below. The files are ASCII, so the word class
  outside ASCII is never consulted: \<open>no_unicode_words\<close> stands for it. The record-start
  patterns are \<open>[0-9]\<close> (\<open>starts_with_digit\<close>) and \<open>"\<close>.
\<close>

definition no_unicode_words :: "char \<Rightarrow> bool" where
  "no_unicode_words c = False"

definition starts_with_digit :: "string \<Rightarrow> bool" where
  "starts_with_digit line = (case line of [] \<Rightarrow> False | c # cs \<Rightarrow> c \<in> set ''0123456789'')"

definition plain_doctor :: doctor where
  \<open>plain_doctor = TextDataDoctor_init starts_with_digit ''id,name'' (CHR '','') (Some (CHR ''"''))\<close>

definition quoted_doctor :: doctor where
  \<open>quoted_doctor = TextDataDoctor_init (starts_with ''"'') ''"id","name"'' (CHR '','') (Some (CHR ''"''))\<close>

section \<open>Format sniffing (model.py, peek_file, lines 98-166)\<close>

text \<open>
  The file is read in binary mode: its content is a list of bytes (numbers below 256),
  and \<open>None\<close> is a path with no file. Decoded text is a list of code points.
  \<open>byte_lines\<close> gives the lines as \<open>readline\<close> and the iteration over the file do, each with
  its line feed.
\<close>

fun lines_from :: "nat list \<Rightarrow> nat list \<Rightarrow> nat list list" where
  "lines_from cur [] = (if cur = [] then [] else [cur])"
| "lines_from cur (b # bs) =
     (if b = 10 then (cur @ [b]) # lines_from [] bs else lines_from (cur @ [b]) bs)"

definition byte_lines :: "nat list \<Rightarrow> nat list list" where
  "byte_lines bytes = lines_from [] bytes"

text \<open>
  \<open>bytes.decode("utf8")\<close>: the well-formed byte sequences of UTF-8 (no overlong form, no
  surrogate, nothing above U+10FFFF); anything else raises \<open>UnicodeDecodeError\<close>, which is
  \<open>None\<close>.
\<close>

definition continuation :: "nat \<Rightarrow> bool" where
  "continuation b = (128 \<le> b \<and> b \<le> 191)"

fun utf8_decode :: "nat list \<Rightarrow> nat list option" where
  "utf8_decode [] = Some []"
| "utf8_decode (b # bs) =
     (if b < 128 then map_option ((#) b) (utf8_decode bs)
      else if 194 \<le> b \<and> b \<le> 223 then
        (case bs of
           c1 # r \<Rightarrow>
             if continuation c1
             then map_option ((#) ((b - 192) * 64 + (c1 - 128))) (utf8_decode r)
             else None
         | _ \<Rightarrow> None)
      else if 224 \<le> b \<and> b \<le> 239 then
        (case bs of
           c1 # c2 # r \<Rightarrow>
             if continuation c1 \<and> continuation c2
                \<and> (if b = 224 then 160 \<le> c1 else True)
                \<and> (if b = 237 then c1 \<le> 159 else True)
             then map_option ((#) ((b - 224) * 4096 + (c1 - 128) * 64 + (c2 - 128)))
                    (utf8_decode r)
             else None
         | _ \<Rightarrow> None)
      else if 240 \<le> b \<and> b \<le> 244 then
        (case bs of
           c1 # c2 # c3 # r \<Rightarrow>
             if continuation c1 \<and> continuation c2 \<and> continuation c3
                \<and> (if b = 240 then 144 \<le> c1 else True)
                \<and> (if b = 244 then c1 \<le> 143 else True)
             then map_option
                    ((#) ((b - 240) * 262144 + (c1 - 128) * 4096 + (c2 - 128) * 64 + (c3 - 128)))
                    (utf8_decode r)
             else None
         | _ \<Rightarrow> None)
      else None)"

text \<open>
  \<open>bytes.decode("cp1252")\<close>: ASCII and the bytes from \<open>0xA0\<close> on decode to themselves, the
  bytes \<open>0x80\<close> to \<open>0x9F\<close> by the table, and the five bytes the table leaves out
  (\<open>0x81\<close>, \<open>0x8D\<close>, \<open>0x8F\<close>, \<open>0x90\<close>, \<open>0x9D\<close>) raise \<open>UnicodeDecodeError\<close>.
\<close>

definition cp1252_table :: "(nat \<times> nat) list" where
  "cp1252_table =
     [(0x80, 0x20AC), (0x82, 0x201A), (0x83, 0x0192), (0x84, 0x201E), (0x85, 0x2026),
      (0x86, 0x2020), (0x87, 0x2021), (0x88, 0x02C6), (0x89, 0x2030), (0x8A, 0x0160),
      (0x8B, 0x2039), (0x8C, 0x0152), (0x8E, 0x017D), (0x91, 0x2018), (0x92, 0x2019),
      (0x93, 0x201C), (0x94, 0x201D), (0x95, 0x2022), (0x96, 0x2013), (0x97, 0x2014),
      (0x98, 0x02DC), (0x99, 0x2122), (0x9A, 0x0161), (0x9B, 0x203A), (0x9C, 0x0153),
      (0x9E, 0x017E), (0x9F, 0x0178)]"

definition cp1252_char :: "nat \<Rightarrow> nat option" where
  "cp1252_char b =
     (if b < 128 then Some b
      else if b < 160 then map_of cp1252_table b
      else if b < 256 then Some b
      else None)"

fun cp1252_decode :: "nat list \<Rightarrow> nat list option" where
  "cp1252_decode [] = Some []"
| "cp1252_decode (b # bs) =
     (case cp1252_char b of
        None \<Rightarrow> None
      | Some c \<Rightarrow> map_option ((#) c) (cp1252_decode bs))"

definition rstrip_newlines :: "nat list \<Rightarrow> nat list" where
  "rstrip_newlines s = rev (dropWhile (\<lambda>c. c = 13 \<or> c = 10) (rev s))"

text \<open>\<open>\w\<close> on code points: as \<open>word_char\<close>, with the Unicode table as the parameter \<open>uw\<close>.\<close>

definition word_code_point :: "(nat \<Rightarrow> bool) \<Rightarrow> nat \<Rightarrow> bool" where
  "word_code_point uw n =
     (if n < 128 then (48 \<le> n \<and> n \<le> 57) \<or> (65 \<le> n \<and> n \<le> 90) \<or> n = 95 \<or> (97 \<le> n \<and> n \<le> 122)
      else uw n)"

text \<open>
  \<open>re.split(r"\w+", header)\<close>: the pieces of the header between its maximal runs of word
  characters, the empty pieces at both ends included. \<open>in_word\<close> says that the character
  before was a word character; \<open>cur\<close> is the piece being read.
\<close>

fun split_words :: "(nat \<Rightarrow> bool) \<Rightarrow> bool \<Rightarrow> nat list \<Rightarrow> nat list \<Rightarrow> nat list list" where
  "split_words uw in_word cur [] = [cur]"
| "split_words uw in_word cur (c # cs) =
     (if word_code_point uw c then
        (if in_word then split_words uw True cur cs else cur # split_words uw True [] cs)
      else split_words uw False (cur @ [c]) cs)"

definition re_split_words :: "(nat \<Rightarrow> bool) \<Rightarrow> nat list \<Rightarrow> nat list list" where
  "re_split_words uw header = split_words uw False [] header"

text \<open>
  The \<open>PeekResult\<close>, without the path. The messages are the texts after \<open>trim_indent\<close>.
\<close>

record PeekResult =
  peek_code :: int
  message :: string
  peek_delimiter :: "nat list"
  peek_qualifier :: "nat list"
  peek_encoding :: string

definition null_byte_message :: string where
  "null_byte_message =
     ''Found null byte in header line.'' @ [CHR 0x0A]
     @ ''This usually means the file is not an 8 byte encoding.'' @ [CHR 0x0A]
     @ ''Currently this application only supports 8 byte encodings''"

definition undecodable_message :: string where
  "undecodable_message =
     ''Encoding is not ut8 and cp1252 failed as well.'' @ [CHR 0x0A]
     @ ''This means the file contains an invalid byte that needs to be resolved:''"

text \<open>
  Lines 138-146: the result the source builds when \<open>bad_lines\<close> is not empty. The
  rendering of the raw lines that the source appends to the message is left out.
\<close>

definition undecodable_result :: "nat list list \<Rightarrow> PeekResult" where
  "undecodable_result bad_lines =
     \<lparr> peek_code = - 2, message = undecodable_message,
       peek_delimiter = [], peek_qualifier = [], peek_encoding = [] \<rparr>"

text \<open>
  Lines 147-166: the delimiter and the qualifier from the header. \<open>spacers[0]\<close> raises
  \<open>IndexError\<close> when there is no spacer. The set of the remaining characters is joined in
  no fixed order; it is used only when it has one element.
\<close>

definition find_delimiter :: "(nat \<Rightarrow> bool) \<Rightarrow> nat list \<Rightarrow> string \<Rightarrow> py_error + PeekResult" where
  "find_delimiter uw header encoding =
     (let spacers = filter (\<lambda>s. s \<noteq> [])
                      (map (\<lambda>spacer. str_replace spacer [32] []) (re_split_words uw header)) in
      case (if 1 < length spacers then Inr (spacers ! 1)
            else (case spacers of [] \<Rightarrow> Inl IndexError | s # rest \<Rightarrow> Inr s)) of
        Inl e \<Rightarrow> Inl e
      | Inr check_space0 \<Rightarrow>
          if list_all (\<lambda>c. c = 32) check_space0
          then Inr \<lparr> peek_code = - 3, message = ''Could not find delimiter'',
                     peek_delimiter = [], peek_qualifier = [], peek_encoding = [] \<rparr>
          else
            (let check_space = str_replace check_space0 [32] [] in
             case List.find (\<lambda>char. find_first [char] check_space = str_rfind check_space [char])
                    check_space of
               None \<Rightarrow> Inr \<lparr> peek_code = - 4, message = ''Could not find delimiter'',
                              peek_delimiter = [], peek_qualifier = [], peek_encoding = [] \<rparr>
             | Some delimiter' \<Rightarrow>
                 (let rest = remdups (str_replace check_space [delimiter'] []) in
                  Inr \<lparr> peek_code = 1, message = [],
                        peek_delimiter = [delimiter'],
                        peek_qualifier = (if length rest = 1 then rest else []),
                        peek_encoding = encoding \<rparr>)))"

text \<open>
  Lines 104-146 after the null-byte check: the header and the encoding the source goes
  on with. Under \<open>utf8\<close> the header and every line must decode; a failure anywhere
  enters the \<open>except UnicodeDecodeError\<close> clause, where the header is decoded again under
  \<open>cp1252\<close> (outside any \<open>try\<close>: a failure there is raised) and the lines that do not
  decode are collected in \<open>bad_lines\<close>. When \<open>bad_lines\<close> is not empty the source builds a
  \<open>PeekResult\<close> of code \<open>-2\<close> as an expression statement, without \<open>return\<close>: the value is
  dropped and control goes on to line 147.
\<close>

definition cp1252_fallback :: "nat list \<Rightarrow> nat list list \<Rightarrow> py_error + (nat list \<times> string)" where
  "cp1252_fallback byte_header body =
     (case cp1252_decode byte_header of
        None \<Rightarrow> Inl UnicodeDecodeError
      | Some header \<Rightarrow>
          (let bad_lines = filter (\<lambda>byte_line. cp1252_decode byte_line = None) body;
               dropped = (if bad_lines \<noteq> [] then Some (undecodable_result bad_lines) else None)
           in Inr (rstrip_newlines header, ''cp1252'')))"

definition decode_file :: "nat list \<Rightarrow> py_error + (nat list \<times> string)" where
  "decode_file bytes =
     (let byte_header = (case byte_lines bytes of [] \<Rightarrow> [] | l # ls \<Rightarrow> l);
          body = tl (byte_lines bytes) in
      case utf8_decode byte_header of
        None \<Rightarrow> cp1252_fallback byte_header body
      | Some header \<Rightarrow>
          if list_all (\<lambda>byte_line. utf8_decode byte_line \<noteq> None) body
          then Inr (rstrip_newlines header, ''utf8'')
          else cp1252_fallback byte_header body)"

definition peek_file :: "(nat \<Rightarrow> bool) \<Rightarrow> nat list option \<Rightarrow> py_error + PeekResult" where
  "peek_file uw file =
     (case file of
        None \<Rightarrow> Inr \<lparr> peek_code = - 1, message = ''File not found'',
                       peek_delimiter = [], peek_qualifier = [], peek_encoding = [] \<rparr>
      | Some bytes \<Rightarrow>
          if 0 \<in> set (case byte_lines bytes of [] \<Rightarrow> [] | l # ls \<Rightarrow> l)
          then Inr \<lparr> peek_code = - 6, message = null_byte_message,
                     peek_delimiter = [], peek_qualifier = [], peek_encoding = [] \<rparr>
          else (case decode_file bytes of
                  Inl e \<Rightarrow> Inl e
                | Inr (header, encoding) \<Rightarrow> find_delimiter uw header encoding))"

text \<open>The code points (and, for ASCII text, the bytes) of a string literal.\<close>

definition code_points :: "string \<Rightarrow> nat list" where
  "code_points s = map of_char s"

section \<open>Manual merge table (viewmodel.py, BadDelimitersTableModel, lines 243-338)\<close>

text \<open>
  Python lists with integer indices: a negative index counts from the end, an index
  out of range raises \<open>IndexError\<close> (\<open>None\<close> in \<open>list_position\<close>), and the bounds of a slice
  are clipped to the list.
\<close>

definition list_position :: "nat \<Rightarrow> int \<Rightarrow> nat option" where
  "list_position n i =
     (if 0 \<le> i \<and> i < int n then Some (nat i)
      else if i < 0 \<and> - int n \<le> i then Some (nat (int n + i))
      else None)"

definition list_get :: "'a list \<Rightarrow> int \<Rightarrow> py_error + 'a" where
  "list_get xs i = (case list_position (length xs) i of None \<Rightarrow> Inl IndexError | Some k \<Rightarrow> Inr (xs ! k))"

definition list_set :: "'a list \<Rightarrow> int \<Rightarrow> 'a \<Rightarrow> py_error + 'a list" where
  "list_set xs i v =
     (case list_position (length xs) i of None \<Rightarrow> Inl IndexError | Some k \<Rightarrow> Inr (xs[k := v]))"

definition slice_bound :: "nat \<Rightarrow> int \<Rightarrow> nat" where
  "slice_bound n i = (if i < 0 then nat (max 0 (int n + i)) else min (nat i) n)"

definition list_slice :: "'a list \<Rightarrow> int \<Rightarrow> int \<Rightarrow> 'a list" where
  "list_slice xs a b = slice xs (slice_bound (length xs) a) (slice_bound (length xs) b)"

fun str_join :: "'a list \<Rightarrow> 'a list list \<Rightarrow> 'a list" where
  "str_join sep [] = []"
| "str_join sep [x] = x"
| "str_join sep (x # y # ys) = x @ sep @ str_join sep (y # ys)"

datatype BadDelimiterChange =
  BadDelimiterChange (change_row: int) (change_start: int) (change_end: int) (old_row: "string list")

text \<open>
  The fields of the table model that the edit operations read and write. The rows are
  the split bad-delimiter records; table row \<open>row\<close> is \<open>bad_delimiters[row - 10]\<close>, the
  first ten table rows showing good records. The Qt signals are not modelled.
\<close>

record table_model =
  model_delimiter :: string
  current_change :: int
  table_changes :: "BadDelimiterChange list"
  bad_delimiter_rows :: "string list list"

definition get_row :: "table_model \<Rightarrow> int \<Rightarrow> py_error + string list" where
  "get_row self row =
     (if row = - 1 then Inl IndexError
      else if row - 10 > int (length (bad_delimiter_rows self)) - 1 then Inl IndexError
      else list_get (bad_delimiter_rows self) (row - 10))"

definition get_new_row :: "table_model \<Rightarrow> int \<Rightarrow> int \<Rightarrow> int \<Rightarrow> py_error + string list" where
  "get_new_row self row start end' =
     (case get_row self row of
        Inl e \<Rightarrow> Inl e
      | Inr old \<Rightarrow>
          Inr (list_slice old 0 start
               @ [str_join (model_delimiter self) (list_slice old start (end' + 1))]
               @ list_slice old (end' + 1) (int (length old))))"

text \<open>
  The loop \<open>while len(self.table_changes) - 1 > self.current_change: del self.table_changes[-1]\<close>.
\<close>

function drop_future :: "BadDelimiterChange list \<Rightarrow> int \<Rightarrow> BadDelimiterChange list \<times> py_error option" where
  "drop_future changes current =
     (if int (length changes) - 1 > current then
        (case changes of
           [] \<Rightarrow> ([], Some IndexError)
         | c # cs \<Rightarrow> drop_future (butlast (c # cs)) current)
      else (changes, None))"
  by pat_completeness auto
termination
  by (relation "measure (\<lambda>(changes, current). length changes)") auto

declare drop_future.simps [simp del]

text \<open>
  Each operation returns the model as it is when the operation ends and the exception
  that ended it, if any: an exception leaves the assignments made before it in place.
\<close>

definition merge_cells :: "table_model \<Rightarrow> int \<Rightarrow> int \<Rightarrow> int \<Rightarrow> table_model \<times> py_error option" where
  "merge_cells self row start end' =
     (case list_get (bad_delimiter_rows self) (row - 10) of
        Inl e \<Rightarrow> (self, Some e)
      | Inr shown \<Rightarrow>
          if int (length shown) > end' then
            (case get_new_row self row start end' of
               Inl e \<Rightarrow> (self, Some e)
             | Inr new_row \<Rightarrow>
                 (case get_row self row of
                    Inl e \<Rightarrow> (self, Some e)
                  | Inr old \<Rightarrow>
                      (case list_set (bad_delimiter_rows self) (row - 10) new_row of
                         Inl e \<Rightarrow> (self, Some e)
                       | Inr rows \<Rightarrow>
                           (case drop_future (table_changes self) (current_change self) of
                              (changes, Some e) \<Rightarrow>
                                (self\<lparr>bad_delimiter_rows := rows, table_changes := changes\<rparr>, Some e)
                            | (changes, None) \<Rightarrow>
                                (self\<lparr>bad_delimiter_rows := rows,
                                       table_changes := changes @ [BadDelimiterChange row start end' old],
                                       current_change := current_change self + 1\<rparr>, None)))))
          else (self, None))"

definition undo_change :: "table_model \<Rightarrow> table_model \<times> py_error option" where
  "undo_change self =
     (if table_changes self = [] \<or> current_change self = - 1 then (self, None)
      else
        (case list_get (table_changes self) (current_change self) of
           Inl e \<Rightarrow> (self, Some e)
         | Inr change \<Rightarrow>
             (case list_set (bad_delimiter_rows self) (change_row change - 10) (old_row change) of
                Inl e \<Rightarrow> (self, Some e)
              | Inr rows \<Rightarrow>
                  (self\<lparr>bad_delimiter_rows := rows, current_change := current_change self - 1\<rparr>,
                   None))))"

definition redo_change :: "table_model \<Rightarrow> table_model \<times> py_error option" where
  "redo_change self =
     (if current_change self + 1 = int (length (table_changes self)) then (self, None)
      else
        (let self1 = self\<lparr>current_change := current_change self + 1\<rparr> in
         case list_get (table_changes self1) (current_change self1) of
           Inl e \<Rightarrow> (self1, Some e)
         | Inr change \<Rightarrow>
             (case get_new_row self1 (change_row change) (change_start change) (change_end change) of
                Inl e \<Rightarrow> (self1, Some e)
              | Inr new_row \<Rightarrow>
                  (case list_set (bad_delimiter_rows self1) (change_row change) new_row of
                     Inl e \<Rightarrow> (self1, Some e)
                   | Inr rows \<Rightarrow> (self1\<lparr>bad_delimiter_rows := rows\<rparr>, None)))))"

text \<open>
  Two tables for the evaluations below: one bad-delimiter row, and eleven of them. Table
  row 10 is the first bad-delimiter row in both.
\<close>

definition one_row_table :: table_model where
  "one_row_table =
     \<lparr> model_delimiter = '','', current_change = - 1, table_changes = [],
       bad_delimiter_rows = [[''2'', ''Bob'', ''hi there'', '' friend'']] \<rparr>"

definition eleven_row_table :: table_model where
  "eleven_row_table =
     \<lparr> model_delimiter = '','', current_change = - 1, table_changes = [],
       bad_delimiter_rows =
         [''2'', ''Bob'', ''hi there'', '' friend''] # replicate 10 [''3'', ''Eve'', ''a'', ''b''] \<rparr>"

section \<open>Properties\<close>

subsection \<open>Outcome classification\<close>

lemma outcome_code_row: "spec_table_row (outcome_code be bd q tf ov) be bd q tf ov"
  by (simp add: spec_table_row_def outcome_code_def Let_def)

lemma outcome_code_range: "outcome_code be bd q tf ov \<in> {1, - 1, - 2, - 3, - 4, - 5, - 6}"
  by (simp add: outcome_code_def)

lemma no_row_minus_7: "\<not> spec_table_row (- 7) be bd q tf ov"
  by (auto simp: spec_table_row_def Let_def)

lemma other_row_is_minus_5:
  "spec_table_row c be bd q tf ov \<Longrightarrow> c \<noteq> outcome_code be bd q tf ov
   \<Longrightarrow> c = - 5 \<and> outcome_code be bd q tf ov = - 4 \<and> be = [] \<and> bd \<noteq> [] \<and> tf \<and> q \<noteq> None"
  by (auto simp: spec_table_row_def outcome_code_def Let_def split: if_splits)

lemma overlap_rows:
  "be = [] \<Longrightarrow> bd \<noteq> [] \<Longrightarrow> tf \<Longrightarrow> q \<noteq> None
   \<Longrightarrow> spec_table_row (- 4) be bd q tf ov \<and> spec_table_row (- 5) be bd q tf ov"
  by (simp add: spec_table_row_def Let_def)

text \<open>
  Claim C1, as amended. Whatever the lists of bad-escape and bad-delimiter records, the
  qualifier, the too-few flag and the overflow lines are: the code \<open>analyze_file\<close> returns
  is one of \<open>1, -1, -2, -3, -4, -5, -6\<close> and never \<open>-7\<close>; the row of \<open>-7\<close> never applies; the
  row of the code returned applies; and any other row that applies is the row of \<open>-5\<close>
  while the code returned is \<open>-4\<close>. So exactly one row applies unless there are bad
  delimiters only, with too few delimiters, and a qualifier is configured: there the
  rows of \<open>-4\<close> and \<open>-5\<close> both apply and the \<open>elif\<close> order of the source gives \<open>-4\<close>.
\<close>

theorem classification_first_matching_row:
  "outcome_code be bd q tf ov \<in> {1, - 1, - 2, - 3, - 4, - 5, - 6}
   \<and> outcome_code be bd q tf ov \<noteq> - 7
   \<and> \<not> spec_table_row (- 7) be bd q tf ov
   \<and> spec_table_row (outcome_code be bd q tf ov) be bd q tf ov
   \<and> (\<forall>c. spec_table_row c be bd q tf ov
          \<longrightarrow> c = outcome_code be bd q tf ov \<or> (c = - 5 \<and> outcome_code be bd q tf ov = - 4))
   \<and> ((\<exists>!c. spec_table_row c be bd q tf ov) = (\<not> (be = [] \<and> bd \<noteq> [] \<and> tf \<and> q \<noteq> None)))"
proof -
  have r: "spec_table_row (outcome_code be bd q tf ov) be bd q tf ov" by (rule outcome_code_row)
  have n7: "outcome_code be bd q tf ov \<noteq> - 7" using outcome_code_range[of be bd q tf ov] by auto
  have others: "\<forall>c. spec_table_row c be bd q tf ov
          \<longrightarrow> c = outcome_code be bd q tf ov \<or> (c = - 5 \<and> outcome_code be bd q tf ov = - 4)"
    using other_row_is_minus_5[of _ be bd q tf ov] by blast
  have uniq: "(\<exists>!c. spec_table_row c be bd q tf ov) = (\<not> (be = [] \<and> bd \<noteq> [] \<and> tf \<and> q \<noteq> None))"
  proof (cases "be = [] \<and> bd \<noteq> [] \<and> tf \<and> q \<noteq> None")
    case True
    then have "spec_table_row (- 4) be bd q tf ov" "spec_table_row (- 5) be bd q tf ov"
      using overlap_rows[of be bd tf q ov] by simp_all
    moreover have "(- 4 :: int) \<noteq> - 5" by simp
    ultimately have "\<not> (\<exists>!c. spec_table_row c be bd q tf ov)" by blast
    then show ?thesis using True by simp
  next
    case False
    have "c = outcome_code be bd q tf ov" if "spec_table_row c be bd q tf ov" for c
      using other_row_is_minus_5[OF that] False by blast
    then have "\<exists>!c. spec_table_row c be bd q tf ov" using r by blast
    then show ?thesis using False by simp
  qed
  show ?thesis
    using outcome_code_range[of be bd q tf ov] n7 no_row_minus_7[of be bd q tf ov] r others uniq
    by blast
qed

theorem classification_first_matching_row_witness:
  "spec_table_row (- 3) ([]::unit list) [''2,Bob,hi there, friend''] None False []
   \<and> outcome_code ([]::unit list) [''2,Bob,hi there, friend''] None False [] = - 3
   \<and> (\<exists>!c. spec_table_row c ([]::unit list) [''2,Bob,hi there, friend''] None False [])"
  using classification_first_matching_row
    [of "[]::unit list" "[''2,Bob,hi there, friend'']" None False "[]"]
  by (simp add: outcome_code_def spec_table_row_def Let_def)

text \<open>
  The claim as stated fails: the file with header \<open>"id","name"\<close>, delimiter \<open>,\<close>, qualifier
  \<open>"\<close> and the one record \<open>"1"\<close> has no bad escape and one bad delimiter record with too
  few delimiters. The pass returns \<open>-4\<close>, and the conditions of the rows \<open>-4\<close> ("bad
  delimiters only, classification is too_few") and \<open>-5\<close> ("bad delimiters only, qualifier
  configured") both hold: not exactly one row applies.
\<close>

lemma overlap_state:
  \<open>analyze_records (get_qualifier_values 1000) quoted_doctor
       \<lparr> bad_escapes = [], bad_delimiters = [], too_few_delimiters = False,
         written = ''"id","name"'' @ [CHR 0x0A] \<rparr> [''"1"'']
     = Inr \<lparr> bad_escapes = [], bad_delimiters = [''"1"''], too_few_delimiters = True,
             written = ''"id","name"'' @ [CHR 0x0A] \<rparr>\<close>
  by code_simp

lemma overlap_file:
  \<open>analyze_file 1000 no_unicode_words quoted_doctor [''"1"''] =
       Inr \<lparr> code = - 4, temp_file = ''"id","name"'' @ [CHR 0x0A],
             result_delimiter = CHR '','', result_columns = [''id'', ''name''],
             result_overflow_lines = [], result_bad_delimiters = [''"1"''],
             result_bad_escapes = [] \<rparr>\<close>
  by code_simp

theorem classification_rows_overlap:
  \<open>analyze_file 1000 no_unicode_words quoted_doctor [''"1"''] =
       Inr \<lparr> code = - 4, temp_file = ''"id","name"'' @ [CHR 0x0A],
             result_delimiter = CHR '','', result_columns = [''id'', ''name''],
             result_overflow_lines = [], result_bad_delimiters = [''"1"''],
             result_bad_escapes = [] \<rparr>
   \<and> analyze_records (get_qualifier_values 1000) quoted_doctor
       \<lparr> bad_escapes = [], bad_delimiters = [], too_few_delimiters = False,
         written = ''"id","name"'' @ [CHR 0x0A] \<rparr> [''"1"'']
     = Inr \<lparr> bad_escapes = [], bad_delimiters = [''"1"''], too_few_delimiters = True,
             written = ''"id","name"'' @ [CHR 0x0A] \<rparr>
   \<and> spec_table_row (- 4) ([]::BadEscape list) [''"1"''] (Some (CHR ''"'')) True []
   \<and> spec_table_row (- 5) ([]::BadEscape list) [''"1"''] (Some (CHR ''"'')) True []
   \<and> \<not> (\<exists>!c. spec_table_row c ([]::BadEscape list) [''"1"''] (Some (CHR ''"'')) True [])\<close>
proof -
  have 4: \<open>spec_table_row (- 4) ([]::BadEscape list) [''"1"''] (Some (CHR ''"'')) True []\<close>
    by (simp add: spec_table_row_def Let_def)
  have 5: \<open>spec_table_row (- 5) ([]::BadEscape list) [''"1"''] (Some (CHR ''"'')) True []\<close>
    by (simp add: spec_table_row_def Let_def)
  have "(- 4 :: int) \<noteq> - 5" by simp
  then have \<open>\<not> (\<exists>!c. spec_table_row c ([]::BadEscape list) [''"1"''] (Some (CHR ''"'')) True [])\<close>
    using 4 5 by blast
  then show ?thesis using 4 5 overlap_state overlap_file by simp
qed

subsection \<open>Qualified-value extraction\<close>

lemma find_value_end_error:
  "find_value_end frames self record p = Inl e \<Longrightarrow> e = RecursionError"
proof (induction frames arbitrary: p)
  case 0
  then show ?case by (subst (asm) find_value_end.simps) simp
next
  case (Suc frames)
  from Suc.prems show ?case
    by (subst (asm) find_value_end.simps)
       (auto split: option.splits if_splits dest: Suc.IH)
qed

lemma loop_body_error:
  "loop_body frames self record start = Inl e \<Longrightarrow> e = ValueError \<or> e = RecursionError"
  by (auto simp: loop_body_def split: option.splits sum.splits dest: find_value_end_error)

lemma loop_is_truncated_scan:
  "c \<le> 100 \<Longrightarrow>
   qualifier_values_loop frames self record end' start c yielded =
     (case scan_steps frames self record end' (101 - c) start yielded of
        Scanning start' ys \<Rightarrow> (ys, Some TooManyLoops)
      | Stopped ys out \<Rightarrow> (ys, out))"
proof (induction "100 - c" arbitrary: c start yielded)
  case 0
  then have c: "c = 100" by simp
  have s: "101 - c = Suc 0" using c by simp
  show ?case
    unfolding s
    by (subst qualifier_values_loop.simps) (simp add: c split: sum.splits)
next
  case (Suc n)
  then have lt: "c < 100" by simp
  have ih: "qualifier_values_loop frames self record end' s' (Suc c) y' =
     (case scan_steps frames self record end' (100 - c) s' y' of
        Scanning start' ys \<Rightarrow> (ys, Some TooManyLoops)
      | Stopped ys out \<Rightarrow> (ys, out))" for s' y'
    using Suc.hyps(1)[of "Suc c" s' y'] Suc.hyps(2) lt by simp
  have s: "101 - c = Suc (100 - c)" using lt by simp
  show ?case
    unfolding s
    by (subst qualifier_values_loop.simps) (simp add: lt ih split: sum.splits)
qed

lemma scan_steps_result:
  "(scan_steps frames self record end' n start yielded = Scanning s ys
      \<longrightarrow> (\<exists>vs. ys = yielded @ vs \<and> length vs = n))
   \<and> (scan_steps frames self record end' n start yielded = Stopped ys out
      \<longrightarrow> (\<exists>vs. ys = yielded @ vs \<and> length vs < n)
          \<and> out \<in> {None, Some ValueError, Some RecursionError})"
proof (induction n arbitrary: start yielded)
  case 0
  show ?case by simp
next
  case (Suc n)
  show ?case
  proof (cases "is_not_end_qualified_values self record start end'")
    case False
    then show ?thesis by simp
  next
    case True
    show ?thesis
    proof (cases "loop_body frames self record start")
      case (Inl e)
      then show ?thesis using True loop_body_error[OF Inl] by auto
    next
      case (Inr p)
      obtain v s' where p: "p = (v, s')" by (cases p)
      show ?thesis using True Inr p Suc.IH[of s' "yielded @ [v]"] by auto
    qed
  qed
qed

lemma scan_stopped_normally:
  "scan_steps frames self record end' n start yielded = Stopped ys None
   \<Longrightarrow> \<exists>k<n. \<exists>s. scan_steps frames self record end' k start yielded = Scanning s ys
           \<and> \<not> is_not_end_qualified_values self record s end'"
proof (induction n arbitrary: start yielded)
  case 0
  then show ?case by simp
next
  case (Suc n)
  show ?case
  proof (cases "is_not_end_qualified_values self record start end'")
    case False
    then have "ys = yielded" using Suc.prems by simp
    then have "scan_steps frames self record end' 0 start yielded = Scanning start ys" by simp
    then show ?thesis using False by blast
  next
    case True
    show ?thesis
    proof (cases "loop_body frames self record start")
      case (Inl e)
      then show ?thesis using True Suc.prems by simp
    next
      case (Inr p)
      obtain v s' where p: "p = (v, s')" by (cases p)
      have "scan_steps frames self record end' n s' (yielded @ [v]) = Stopped ys None"
        using Suc.prems True Inr p by simp
      then obtain k s where k: "k < n"
        and sc: "scan_steps frames self record end' k s' (yielded @ [v]) = Scanning s ys"
        and g: "\<not> is_not_end_qualified_values self record s end'"
        using Suc.IH[of s' "yielded @ [v]"] by blast
      have "scan_steps frames self record end' (Suc k) start yielded = Scanning s ys"
        using sc True Inr p by simp
      then show ?thesis using k g by (intro exI[of _ "Suc k"]) auto
    qed
  qed
qed

lemma get_qualifier_values_total:
  "\<exists>ys out. get_qualifier_values frames self record = (ys, out) \<and> length ys \<le> 103"
proof -
  have loop: "\<exists>ys out. qualifier_values_loop frames self record e s 0 y0 = (ys, out)
                \<and> length ys \<le> length y0 + 101" for e s y0
  proof (cases "scan_steps frames self record e 101 s y0")
    case (Scanning s' ys)
    then show ?thesis
      using loop_is_truncated_scan[of 0 frames self "record" e s y0]
        scan_steps_result[of frames self "record" e 101 s y0 s' ys]
      by auto
  next
    case (Stopped ys out)
    then show ?thesis
      using loop_is_truncated_scan[of 0 frames self "record" e s y0]
        scan_steps_result[of frames self "record" e 101 s y0 _ ys out]
      by auto
  qed
  show ?thesis
  proof (cases "qualifier self")
    case None
    then show ?thesis by (simp add: get_qualifier_values_def)
  next
    case (Some q)
    show ?thesis
    proof (cases "record = []")
      case True
      then show ?thesis using Some by (simp add: get_qualifier_values_def)
    next
      case False
      define lead where "lead =
        (if hd record = q \<and> str_contains (end_pattern self) record
         then (case find_first (end_pattern self) (tl record) of
                 None \<Rightarrow> Inl ValueError
               | Some temp_start \<Rightarrow> Inr ([slice record 1 temp_start], temp_start))
         else Inr ([], 0))"
      define trail where "trail =
        (if last record = q \<and> str_contains (start_pattern self) record
         then (case str_rfind (butlast record) (start_pattern self) of
                 None \<Rightarrow> Inl ValueError
               | Some last_pattern \<Rightarrow>
                   Inr ([slice record (last_pattern + 1) (length record - 1)],
                        last_pattern + 1))
         else Inr ([], length record))"
      have g: "get_qualifier_values frames self record =
        (case lead of
           Inl e \<Rightarrow> ([], Some e)
         | Inr (yielded1, start) \<Rightarrow>
             (case trail of
                Inl e \<Rightarrow> (yielded1, Some e)
              | Inr (yielded2, end') \<Rightarrow>
                  qualifier_values_loop frames self record end' start 0 (yielded1 @ yielded2)))"
        unfolding get_qualifier_values_def lead_def trail_def
        using Some False by (simp only: option.case if_False)
      have l1: "lead = Inr (y1, s) \<Longrightarrow> length y1 \<le> 1" for y1 s
        by (auto simp: lead_def split: if_splits option.splits)
      have l2: "trail = Inr (y2, e) \<Longrightarrow> length y2 \<le> 1" for y2 e
        by (auto simp: trail_def split: if_splits option.splits)
      show ?thesis
      proof (cases lead)
        case (Inl e)
        then show ?thesis by (simp add: g)
      next
        case (Inr p)
        obtain y1 s where p: "p = (y1, s)" by (cases p)
        show ?thesis
        proof (cases trail)
          case (Inl e)
          then show ?thesis using Inr p l1[of y1 s] by (simp add: g)
        next
          case (Inr p2)
          obtain y2 e where p2: "p2 = (y2, e)" by (cases p2)
          obtain ys out where
            "qualifier_values_loop frames self record e s 0 (y1 @ y2) = (ys, out)"
            "length ys \<le> length (y1 @ y2) + 101"
            using loop[of e s "y1 @ y2"] by blast
          then show ?thesis
            using \<open>lead = Inr p\<close> p Inr p2 l1[of y1 s] l2[of y2 e] by (simp add: g)
        qed
      qed
    qed
  qed
qed

text \<open>
  Claim C6. For every doctor (delimiter and qualifier), record, scan state and stack
  room, the \<open>while\<close> loop of \<open>get_qualifier_values\<close>, entered with \<open>loop_counter = 0\<close> as the
  source enters it, is the loop without the counter cut off after 101 iterations: when
  that loop ends within 101 iterations, by its condition becoming false or by an
  exception of the \<open>try\<close> block, the result is the same; when it is still running after
  101 iterations, the result is the 101 values and the exception "Too many while loops".
  So the loop yields at most 101 values; it ends without an exception only in a state
  where the loop condition is false, reached after at most 100 iterations; it raises
  the ceiling exception exactly when 101 iterations ran without the loop ending, never
  ending silently there; its other exceptions are the \<open>ValueError\<close> of \<open>record.index\<close> and
  the \<open>RecursionError\<close> of \<open>find_value_end\<close>. And \<open>get_qualifier_values\<close> returns on every
  input, with at most 103 values. The loop is a total function of the model: its
  recursion is accepted on the measure \<open>101 - loop_counter\<close>.
\<close>

theorem qualifier_values_loop_ceiling:
  "qualifier_values_loop frames self record end' start 0 yielded =
     (case scan_steps frames self record end' 101 start yielded of
        Scanning start' ys \<Rightarrow> (ys, Some TooManyLoops)
      | Stopped ys out \<Rightarrow> (ys, out))
   \<and> (\<exists>vs out.
         qualifier_values_loop frames self record end' start 0 yielded = (yielded @ vs, out)
         \<and> length vs \<le> 101
         \<and> (length vs = 101) = (out = Some TooManyLoops)
         \<and> out \<in> {None, Some ValueError, Some RecursionError, Some TooManyLoops}
         \<and> (out = None \<longrightarrow>
              (\<exists>k\<le>100. \<exists>s. scan_steps frames self record end' k start yielded
                                 = Scanning s (yielded @ vs)
                             \<and> \<not> is_not_end_qualified_values self record s end'))
         \<and> (out = Some TooManyLoops)
             = (\<exists>s. scan_steps frames self record end' 101 start yielded
                       = Scanning s (yielded @ vs)))
   \<and> (\<exists>ys out. get_qualifier_values frames self record = (ys, out) \<and> length ys \<le> 103)"
proof -
  have eq: "qualifier_values_loop frames self record end' start 0 yielded =
     (case scan_steps frames self record end' 101 start yielded of
        Scanning start' ys \<Rightarrow> (ys, Some TooManyLoops)
      | Stopped ys out \<Rightarrow> (ys, out))"
    using loop_is_truncated_scan[of 0 frames self "record" end' start yielded] by simp
  have second: "\<exists>vs out.
         qualifier_values_loop frames self record end' start 0 yielded = (yielded @ vs, out)
         \<and> length vs \<le> 101
         \<and> (length vs = 101) = (out = Some TooManyLoops)
         \<and> out \<in> {None, Some ValueError, Some RecursionError, Some TooManyLoops}
         \<and> (out = None \<longrightarrow>
              (\<exists>k\<le>100. \<exists>s. scan_steps frames self record end' k start yielded
                                 = Scanning s (yielded @ vs)
                             \<and> \<not> is_not_end_qualified_values self record s end'))
         \<and> (out = Some TooManyLoops)
             = (\<exists>s. scan_steps frames self record end' 101 start yielded
                       = Scanning s (yielded @ vs))"
  proof (cases "scan_steps frames self record end' 101 start yielded")
    case (Scanning s' ys)
    obtain vs where vs: "ys = yielded @ vs" "length vs = 101"
      using scan_steps_result[of frames self "record" end' 101 start yielded s' ys] Scanning
      by blast
    have "qualifier_values_loop frames self record end' start 0 yielded
            = (yielded @ vs, Some TooManyLoops)"
      using eq Scanning vs by simp
    then show ?thesis using vs Scanning by (intro exI[of _ vs] exI[of _ "Some TooManyLoops"]) simp
  next
    case (Stopped ys out)
    obtain vs where vs: "ys = yielded @ vs" "length vs < 101"
      and out: "out \<in> {None, Some ValueError, Some RecursionError}"
      using scan_steps_result[of frames self "record" end' 101 start yielded _ ys out] Stopped
      by blast
    have r: "qualifier_values_loop frames self record end' start 0 yielded = (yielded @ vs, out)"
      using eq Stopped vs by simp
    have n: "out = None \<longrightarrow>
              (\<exists>k\<le>100. \<exists>s. scan_steps frames self record end' k start yielded
                                 = Scanning s (yielded @ vs)
                             \<and> \<not> is_not_end_qualified_values self record s end')"
    proof
      assume "out = None"
      then obtain k s where "k < 101"
        "scan_steps frames self record end' k start yielded = Scanning s ys"
        "\<not> is_not_end_qualified_values self record s end'"
        using scan_stopped_normally[of frames self "record" end' 101 start yielded ys] Stopped
        by blast
      then show "\<exists>k\<le>100. \<exists>s. scan_steps frames self record end' k start yielded
                                 = Scanning s (yielded @ vs)
                             \<and> \<not> is_not_end_qualified_values self record s end'"
        using vs by (intro exI[of _ k]) auto
    qed
    show ?thesis
      using r vs out n Stopped by (intro exI[of _ vs] exI[of _ out]) auto
  qed
  show ?thesis using eq second get_qualifier_values_total[of frames self "record"] by blast
qed

lemma ceiling_example_loop:
  \<open>qualifier_values_loop 1000 quoted_doctor ''x,"a","b",y'' 11 0 0 [] = ([''a'', ''b''], None)\<close>
  by code_simp

theorem qualifier_values_loop_ceiling_witness:
  \<open>qualifier_values_loop 1000 quoted_doctor ''x,"a","b",y'' 11 0 0 [] = ([''a'', ''b''], None)
   \<and> (\<exists>k\<le>100. \<exists>s. scan_steps 1000 quoted_doctor ''x,"a","b",y'' 11 k 0 [] = Scanning s [''a'', ''b'']
                  \<and> \<not> is_not_end_qualified_values quoted_doctor ''x,"a","b",y'' s 11)\<close>
  using qualifier_values_loop_ceiling[of 1000 quoted_doctor \<open>''x,"a","b",y''\<close> 11 0 "[]"]
    ceiling_example_loop
  by auto

lemma find_value_end_stack_example:
  \<open>get_qualifier_values 3 quoted_doctor '',"",x",x",x",x'' = ([], Some RecursionError)
   \<and> get_qualifier_values 4 quoted_doctor '',"",x",x",x",x'' = ([''",x",x",x''], None)\<close>
  by code_simp

text \<open>
  Claim C2 (the code does not meet it). The record \<open>"ab","cd"\<close> is a quoted field at the
  start, a quoted field at the end and nothing else; its values are \<open>ab\<close> and \<open>cd\<close>.
  \<open>get_qualifier_values\<close> yields \<open>a\<close> and \<open>"cd\<close>: \<open>temp_start\<close> is an index into \<open>record[1:]\<close>
  but is used as an index into \<open>record\<close>, so the leading value loses its last character,
  and the trailing value starts at \<open>last_pattern + 1\<close>, the qualifier of the start pattern,
  instead of \<open>last_pattern + 2\<close>. The loop does not run on this record, so the stack room
  plays no part.
\<close>

theorem qualified_value_bounds_off_by_one:
  \<open>get_qualifier_values frames quoted_doctor ''"ab","cd"'' = ([''a'', ''"cd''], None)\<close>
  by code_simp

subsection \<open>Record reassembly\<close>

text \<open>
  Claim C9. With a qualifier configured, when the first line after the header is not
  empty (once its line terminator is stripped) and does not match the record-start
  pattern, \<open>get_records\<close> evaluates \<open>record[-1]\<close> on the still empty buffer: it raises
  \<open>IndexError\<close> before it yields anything, and \<open>analyze_file\<close>, which does not catch it,
  ends with that exception instead of a result.
\<close>

theorem get_records_raises_index_error:
  assumes "qualifier self \<noteq> None"
    and "rstrip_crlf line \<noteq> []"
    and "\<not> record_start_regex self (rstrip_crlf line)"
  shows "get_records uw self (line # rest) = (self\<lparr>overflow_lines := []\<rparr>, [], Some IndexError)
         \<and> analyze_file frames uw self (line # rest) = Inl IndexError"
proof -
  have g: "get_records uw self (line # rest) = (self\<lparr>overflow_lines := []\<rparr>, [], Some IndexError)"
    using assms by (simp add: get_records_def Let_def)
  show ?thesis
    by (simp add: g analyze_file_def analyze_file_with_def)
qed

theorem get_records_raises_index_error_witness:
  "qualifier plain_doctor \<noteq> None \<and> rstrip_crlf ''x,y'' \<noteq> []
   \<and> \<not> record_start_regex plain_doctor (rstrip_crlf ''x,y'')
   \<and> analyze_file 1000 no_unicode_words plain_doctor [''x,y'', ''1,a''] = Inl IndexError"
proof -
  have 1: "qualifier plain_doctor \<noteq> None" by (simp add: plain_doctor_def TextDataDoctor_init_def)
  have 2: "rstrip_crlf ''x,y'' \<noteq> []" by (simp add: rstrip_crlf_def)
  have 3: "\<not> record_start_regex plain_doctor (rstrip_crlf ''x,y'')"
    by (simp add: plain_doctor_def TextDataDoctor_init_def rstrip_crlf_def starts_with_digit_def)
  show ?thesis
    using get_records_raises_index_error[OF 1 2 3, of no_unicode_words "[''1,a'']" 1000] 1 2 3 by simp
qed

subsection \<open>Analysis pass\<close>

lemma escape_step_all_qualified:
  "all_qualified self \<Longrightarrow> escape_step gqv self r bes = escape_step gqv' self r bes"
  by (auto simp: escape_step_def split: option.splits sum.splits)

lemma delimiter_step_all_qualified:
  "all_qualified self \<Longrightarrow> delimiter_step gqv self r bds tf b = delimiter_step gqv' self r bds tf b"
  by (auto simp: delimiter_step_def Let_def)

lemma analyze_record_all_qualified:
  "all_qualified self \<Longrightarrow> analyze_record gqv self st r = analyze_record gqv' self st r"
  by (simp add: analyze_record_def escape_step_all_qualified[of self gqv r _ gqv']
      delimiter_step_all_qualified[of self gqv _ _ _ _ gqv'] cong: sum.case_cong prod.case_cong)

lemma analyze_records_all_qualified:
  "all_qualified self \<Longrightarrow> analyze_records gqv self st rs = analyze_records gqv' self st rs"
  by (induction rs arbitrary: st)
     (simp_all add: analyze_record_all_qualified[of self gqv _ _ gqv'] cong: sum.case_cong)

lemma get_records_loop_all_qualified:
  "all_qualified (fst (get_records_loop uw self i r ls ys)) = all_qualified self"
  by (induction uw self i r ls ys rule: get_records_loop.induct)
     (simp_all add: Let_def add_overflow_def)

text \<open>
  Claim C8. \<open>__init__\<close> sets \<open>all_qualified\<close> to \<open>True\<close> and nothing changes it: for a doctor as
  \<open>__init__\<close> builds it, whatever the pattern, header, delimiter and qualifier, the flag is
  true, it is still true after \<open>get_records\<close> has run, and both the escape check and the
  delimiter recount of any record take the all-qualified split branch. Their results,
  and the result of the whole pass, are the same whatever function stands in the place
  of \<open>get_qualifier_values\<close> (also one that always raises), and whatever the stack room of
  \<open>find_value_end\<close> is: the pass never calls it.
\<close>

theorem all_qualified_branch_always_taken:
  "all_qualified (TextDataDoctor_init regex header d q)
   \<and> all_qualified (fst (get_records uw (TextDataDoctor_init regex header d q) lines))
   \<and> escape_step gqv (TextDataDoctor_init regex header d q) r bes
       = escape_step gqv' (TextDataDoctor_init regex header d q) r bes
   \<and> delimiter_step gqv (TextDataDoctor_init regex header d q) r bds tf b
       = delimiter_step gqv' (TextDataDoctor_init regex header d q) r bds tf b
   \<and> analyze_file frames uw (TextDataDoctor_init regex header d q) lines
       = analyze_file_with gqv uw (TextDataDoctor_init regex header d q) lines"
proof -
  let ?self = "TextDataDoctor_init regex header d q"
  have a: "all_qualified ?self" by (simp add: TextDataDoctor_init_def)
  have b: "all_qualified (fst (get_records uw ?self lines))"
    by (simp add: get_records_def get_records_loop_all_qualified a)
  have c: "analyze_file frames uw ?self lines = analyze_file_with gqv uw ?self lines"
    by (simp add: analyze_file_def analyze_file_with_def
        analyze_records_all_qualified[OF a, of "get_qualifier_values frames" _ _ gqv])
  show ?thesis
    using a b c escape_step_all_qualified[OF a] delimiter_step_all_qualified[OF a] by blast
qed

text \<open>
  Claim C3 (the code does not meet it). A file with header \<open>id,name\<close>, delimiter \<open>,\<close>,
  qualifier \<open>"\<close> and the one record \<open>1,"a"b"\<close>: the pass returns code \<open>-2\<close> with one
  \<open>BadEscape\<close>, whose offending value is \<open>,"a"b\<close> (the record without its first and last
  character, since the all-qualified split is always taken). Its \<open>fix_record\<close> is the
  record unchanged, because \<open>","a"b"\<close> does not occur in it; it is what the pass writes
  as the repaired record, and the escape check run on it reports the same value again.
\<close>

theorem repair_leaves_bad_escape:
  \<open>analyze_file frames no_unicode_words plain_doctor [''1,"a"b"''] =
     Inr \<lparr> code = - 2, temp_file = ''id,name'' @ [CHR 0x0A] @ ''1,"a"b"'',
           result_delimiter = CHR '','', result_columns = [''id'', ''name''],
           result_overflow_lines = [], result_bad_delimiters = [],
           result_bad_escapes = [BadEscape ''"'' ''1,"a"b"'' ['',"a"b'']] \<rparr>
   \<and> fix_record (BadEscape ''"'' ''1,"a"b"'' ['',"a"b'']) = ''1,"a"b"''
   \<and> escape_step (get_qualifier_values frames) plain_doctor
        (fix_record (BadEscape ''"'' ''1,"a"b"'' ['',"a"b''])) []
      = Inr (''1,"a"b"'', [BadEscape ''"'' ''1,"a"b"'' ['',"a"b'']], True)\<close>
  by code_simp

text \<open>
  Claim C5 (the code does not meet it). A file with header \<open>"id","name"\<close> and the two
  records \<open>"1","a"b"\<close> and \<open>"2","c"d"\<close>, each with an unescaped qualifier: the text
  written is the header line, then both repaired records with no line terminator
  between them or after them. The records written in the main pass get \<open>"\n"\<close> from
  \<open>temp_file.write(f"{record}\n")\<close>; \<open>writelines\<close> adds none.
\<close>

theorem repaired_records_written_without_newline:
  \<open>analyze_file frames no_unicode_words quoted_doctor
       [''"1","a"b"'' @ [CHR 0x0A], ''"2","c"d"'' @ [CHR 0x0A]] =
     Inr \<lparr> code = - 2,
           temp_file = ''"id","name"'' @ [CHR 0x0A] @ ''"1","a""b"'' @ ''"2","c""d"'',
           result_delimiter = CHR '','', result_columns = [''id'', ''name''],
           result_overflow_lines = [], result_bad_delimiters = [],
           result_bad_escapes = [BadEscape ''"'' ''"1","a"b"'' [''a"b''],
                                 BadEscape ''"'' ''"2","c"d"'' [''c"d'']] \<rparr>\<close>
  by code_simp

subsection \<open>Format sniffing\<close>

lemma utf8_one:
  "b < 128 \<Longrightarrow> utf8_decode (b # r0) = map_option ((#) b) (utf8_decode r0)"
  by simp

lemma utf8_two:
  "194 \<le> b \<Longrightarrow> b \<le> 223 \<Longrightarrow> utf8_decode (b # r0) =
     (case r0 of
        c1 # r \<Rightarrow>
          if continuation c1
          then map_option ((#) ((b - 192) * 64 + (c1 - 128))) (utf8_decode r)
          else None
      | _ \<Rightarrow> None)"
  by simp

lemma utf8_three:
  "224 \<le> b \<Longrightarrow> b \<le> 239 \<Longrightarrow> utf8_decode (b # r0) =
     (case r0 of
        c1 # c2 # r \<Rightarrow>
          if continuation c1 \<and> continuation c2
             \<and> (if b = 224 then 160 \<le> c1 else True)
             \<and> (if b = 237 then c1 \<le> 159 else True)
          then map_option ((#) ((b - 224) * 4096 + (c1 - 128) * 64 + (c2 - 128)))
                 (utf8_decode r)
          else None
      | _ \<Rightarrow> None)"
  by simp

lemma utf8_four:
  "240 \<le> b \<Longrightarrow> b \<le> 244 \<Longrightarrow> utf8_decode (b # r0) =
     (case r0 of
        c1 # c2 # c3 # r \<Rightarrow>
          if continuation c1 \<and> continuation c2 \<and> continuation c3
             \<and> (if b = 240 then 144 \<le> c1 else True)
             \<and> (if b = 244 then c1 \<le> 143 else True)
          then map_option
                 ((#) ((b - 240) * 262144 + (c1 - 128) * 4096 + (c2 - 128) * 64 + (c3 - 128)))
                 (utf8_decode r)
          else None
      | _ \<Rightarrow> None)"
  by simp

lemma utf8_bad:
  "\<not> b < 128 \<Longrightarrow> \<not> (194 \<le> b \<and> b \<le> 223) \<Longrightarrow> \<not> (224 \<le> b \<and> b \<le> 239)
   \<Longrightarrow> \<not> (240 \<le> b \<and> b \<le> 244) \<Longrightarrow> utf8_decode (b # r0) = None"
  by (simp only: utf8_decode.simps if_False)

lemma utf8_decode_keeps_null:
  "utf8_decode bs = Some h \<Longrightarrow> 0 \<in> set bs \<Longrightarrow> 0 \<in> set h"
proof (induction "length bs" arbitrary: bs h rule: less_induct)
  case less
  show ?case
  proof (cases bs)
    case Nil
    then show ?thesis using less.prems by simp
  next
    case (Cons b r0)
    consider (one) "b < 128" | (two) "194 \<le> b \<and> b \<le> 223" | (three) "224 \<le> b \<and> b \<le> 239"
      | (four) "240 \<le> b \<and> b \<le> 244"
      | (bad) "\<not> b < 128 \<and> \<not> (194 \<le> b \<and> b \<le> 223) \<and> \<not> (224 \<le> b \<and> b \<le> 239)
               \<and> \<not> (240 \<le> b \<and> b \<le> 244)"
      by blast
    then show ?thesis
    proof cases
      case one
      have "map_option ((#) b) (utf8_decode r0) = Some h"
        using less.prems(1) Cons utf8_one[OF one, of r0] by (simp del: utf8_decode.simps)
      then obtain h' where d: "utf8_decode r0 = Some h'" and h: "h = b # h'"
        by (cases "utf8_decode r0") (auto simp del: utf8_decode.simps)
      show ?thesis
      proof (cases "b = 0")
        case True
        then show ?thesis using h by simp
      next
        case False
        then have "0 \<in> set r0" using less.prems(2) Cons by simp
        then have "0 \<in> set h'" using less.hyps[of r0 h'] d Cons by simp
        then show ?thesis using h by simp
      qed
    next
      case two
      have e: "(case r0 of
                  c1 # r \<Rightarrow>
                    if continuation c1
                    then map_option ((#) ((b - 192) * 64 + (c1 - 128))) (utf8_decode r)
                    else None
                | _ \<Rightarrow> None) = Some h"
        using less.prems(1) Cons utf8_two[of b r0] two by (simp del: utf8_decode.simps)
      then obtain c1 r where r0: "r0 = c1 # r" by (cases r0) simp_all
      have c: "continuation c1" using e r0 by (simp del: utf8_decode.simps split: if_splits)
      obtain h' where d: "utf8_decode r = Some h'" and h: "h = ((b - 192) * 64 + (c1 - 128)) # h'"
        using e r0 c by (cases "utf8_decode r") (auto simp del: utf8_decode.simps)
      have "0 \<in> set r" using less.prems(2) Cons r0 two c by (auto simp: continuation_def)
      then have "0 \<in> set h'" using less.hyps[of r h'] d Cons r0 by simp
      then show ?thesis using h by simp
    next
      case three
      have e: "(case r0 of
                  c1 # c2 # r \<Rightarrow>
                    if continuation c1 \<and> continuation c2
                       \<and> (if b = 224 then 160 \<le> c1 else True)
                       \<and> (if b = 237 then c1 \<le> 159 else True)
                    then map_option ((#) ((b - 224) * 4096 + (c1 - 128) * 64 + (c2 - 128)))
                           (utf8_decode r)
                    else None
                | _ \<Rightarrow> None) = Some h"
        using less.prems(1) Cons utf8_three[of b r0] three by (simp del: utf8_decode.simps)
      then obtain c1 c2 r where r0: "r0 = c1 # c2 # r"
        by (cases r0; cases "tl r0") simp_all
      have c: "continuation c1 \<and> continuation c2"
        using e r0 by (simp del: utf8_decode.simps split: if_splits)
      obtain h' where d: "utf8_decode r = Some h'"
        and h: "h = ((b - 224) * 4096 + (c1 - 128) * 64 + (c2 - 128)) # h'"
        using e r0 by (cases "utf8_decode r") (auto simp del: utf8_decode.simps split: if_splits)
      have "0 \<in> set r" using less.prems(2) Cons r0 three c by (auto simp: continuation_def)
      then have "0 \<in> set h'" using less.hyps[of r h'] d Cons r0 by simp
      then show ?thesis using h by simp
    next
      case four
      have e: "(case r0 of
                  c1 # c2 # c3 # r \<Rightarrow>
                    if continuation c1 \<and> continuation c2 \<and> continuation c3
                       \<and> (if b = 240 then 144 \<le> c1 else True)
                       \<and> (if b = 244 then c1 \<le> 143 else True)
                    then map_option
                           ((#) ((b - 240) * 262144 + (c1 - 128) * 4096 + (c2 - 128) * 64
                                 + (c3 - 128)))
                           (utf8_decode r)
                    else None
                | _ \<Rightarrow> None) = Some h"
        using less.prems(1) Cons utf8_four[of b r0] four by (simp del: utf8_decode.simps)
      then obtain c1 c2 c3 r where r0: "r0 = c1 # c2 # c3 # r"
        by (cases r0; cases "tl r0"; cases "tl (tl r0)") simp_all
      have c: "continuation c1 \<and> continuation c2 \<and> continuation c3"
        using e r0 by (simp del: utf8_decode.simps split: if_splits)
      obtain h' where d: "utf8_decode r = Some h'"
        and h: "h = ((b - 240) * 262144 + (c1 - 128) * 4096 + (c2 - 128) * 64 + (c3 - 128)) # h'"
        using e r0 by (cases "utf8_decode r") (auto simp del: utf8_decode.simps split: if_splits)
      have "0 \<in> set r" using less.prems(2) Cons r0 four c by (auto simp: continuation_def)
      then have "0 \<in> set h'" using less.hyps[of r h'] d Cons r0 by simp
      then show ?thesis using h by simp
    next
      case bad
      then show ?thesis using less.prems(1) Cons utf8_bad[of b r0] by (simp del: utf8_decode.simps)
    qed
  qed
qed

lemma cp1252_decode_keeps_null:
  "cp1252_decode bs = Some h \<Longrightarrow> 0 \<in> set bs \<Longrightarrow> 0 \<in> set h"
  by (induction bs arbitrary: h) (auto simp: cp1252_char_def split: option.splits)

lemma in_set_dropWhile: "x \<in> set xs \<Longrightarrow> \<not> P x \<Longrightarrow> x \<in> set (dropWhile P xs)"
  by (induction xs) auto

lemma rstrip_newlines_keeps:
  "c \<in> set s \<Longrightarrow> c \<noteq> 13 \<Longrightarrow> c \<noteq> 10 \<Longrightarrow> c \<in> set (rstrip_newlines s)"
  using in_set_dropWhile[of c "rev s" "\<lambda>c. c = 13 \<or> c = 10"] by (simp add: rstrip_newlines_def)

lemma decode_file_keeps_null:
  assumes "decode_file bytes = Inr (header, encoding)"
    and "0 \<in> set (case byte_lines bytes of [] \<Rightarrow> [] | l # ls \<Rightarrow> l)"
  shows "0 \<in> set header"
proof -
  let ?bh = "case byte_lines bytes of [] \<Rightarrow> [] | l # ls \<Rightarrow> l"
  have "(\<exists>h. utf8_decode ?bh = Some h \<and> header = rstrip_newlines h)
        \<or> (\<exists>h. cp1252_decode ?bh = Some h \<and> header = rstrip_newlines h)"
    using assms(1)
    by (auto simp: decode_file_def cp1252_fallback_def Let_def split: option.splits if_splits)
  then obtain h where "0 \<in> set h" and "header = rstrip_newlines h"
    using assms(2) utf8_decode_keeps_null[of ?bh] cp1252_decode_keeps_null[of ?bh] by blast
  then show ?thesis using rstrip_newlines_keeps[of 0 h] by simp
qed

lemma split_words_pieces:
  "p \<in> set (split_words uw in_word cur s)
   \<Longrightarrow> set p \<subseteq> set cur \<union> {c \<in> set s. \<not> word_code_point uw c}"
  by (induction uw in_word cur s arbitrary: p rule: split_words.induct)
     (auto split: if_splits)

lemma replace_single_removes:
  "replace_skip [a] [] 0 s = filter (\<lambda>c. c \<noteq> a) s"
  by (induction s) (auto simp: starts_with_def)

lemma no_spacers:
  assumes "list_all (\<lambda>c. word_code_point uw c \<or> c = 32) header"
  shows "filter (\<lambda>s. s \<noteq> [])
           (map (\<lambda>spacer. str_replace spacer [32] []) (re_split_words uw header)) = []"
proof -
  have "str_replace p [32] [] = []" if "p \<in> set (re_split_words uw header)" for p
  proof -
    have "set p \<subseteq> {c \<in> set header. \<not> word_code_point uw c}"
      using split_words_pieces[of p uw False "[]" header] that by (simp add: re_split_words_def)
    then have "set p \<subseteq> {32}" using assms by (auto simp: list_all_iff)
    then have "filter (\<lambda>c. c \<noteq> 32) p = []" by (auto simp: filter_empty_conv)
    then show ?thesis by (simp add: str_replace_def replace_single_removes)
  qed
  then show ?thesis by (auto simp: filter_empty_conv)
qed

text \<open>
  Claim C10. For every file that exists, when the header line as \<open>peek_file\<close> decodes it
  (under \<open>utf8\<close>, or under \<open>cp1252\<close> after a decoding failure) has only word characters and
  spaces, no spacer is left after the split on \<open>\w+\<close>, and \<open>spacers[0]\<close> raises
  \<open>IndexError\<close>: \<open>peek_file\<close> ends with that exception, not with a \<open>PeekResult\<close> of code \<open>-3\<close>
  or \<open>-4\<close>. Such a header has no null byte, so the check of line 109 does not return
  first.
\<close>

theorem peek_file_raises_index_error:
  assumes "decode_file bytes = Inr (header, encoding)"
    and "list_all (\<lambda>c. word_code_point uw c \<or> c = 32) header"
  shows "peek_file uw (Some bytes) = Inl IndexError"
proof -
  have w0: "\<not> (word_code_point uw 0 \<or> (0::nat) = 32)" by (simp add: word_code_point_def)
  have "0 \<notin> set header" using assms(2) w0 by (auto simp: list_all_iff)
  then have nz: "0 \<notin> set (case byte_lines bytes of [] \<Rightarrow> [] | l # ls \<Rightarrow> l)"
    using decode_file_keeps_null[OF assms(1)] by blast
  have "find_delimiter uw header encoding = Inl IndexError"
    by (simp add: find_delimiter_def no_spacers[OF assms(2)])
  then show ?thesis using nz assms(1) by (simp add: peek_file_def)
qed

theorem peek_file_raises_index_error_witness:
  "decode_file (code_points ''id name'' @ [10] @ code_points ''1 Ann'' @ [10])
     = Inr (code_points ''id name'', ''utf8'')
   \<and> list_all (\<lambda>c. word_code_point (\<lambda>n. False) c \<or> c = 32) (code_points ''id name'')
   \<and> peek_file (\<lambda>n. False) (Some (code_points ''id name'' @ [10] @ code_points ''1 Ann'' @ [10]))
     = Inl IndexError"
proof -
  have 1: "decode_file (code_points ''id name'' @ [10] @ code_points ''1 Ann'' @ [10])
     = Inr (code_points ''id name'', ''utf8'')"
    by code_simp
  have 2: "list_all (\<lambda>c. word_code_point (\<lambda>n. False) c \<or> c = 32) (code_points ''id name'')"
    by code_simp
  show ?thesis using peek_file_raises_index_error[OF 1 2] 1 2 by simp
qed

lemma undecodable_example_lines:
  "byte_lines (code_points ''a,b'' @ [10, 0x81, 10]) = [[97, 44, 98, 10], [0x81, 10]]"
  by (simp add: byte_lines_def code_points_def)

lemma undecodable_example_utf8: "utf8_decode [0x81, 10] = None"
  by simp

lemma undecodable_example_cp1252: "cp1252_decode [0x81, 10] = None"
  by (simp add: cp1252_char_def cp1252_table_def)

lemma undecodable_example_header:
  "utf8_decode [97, 44, 98, 10] = Some [97, 44, 98, 10]
   \<and> cp1252_decode [97, 44, 98, 10] = Some [97, 44, 98, 10]"
  by (simp add: cp1252_char_def)

lemma undecodable_example_decode:
  "decode_file (code_points ''a,b'' @ [10, 0x81, 10]) = Inr ([97, 44, 98], ''cp1252'')"
  by (simp add: decode_file_def cp1252_fallback_def undecodable_example_lines undecodable_example_utf8
      undecodable_example_cp1252 undecodable_example_header rstrip_newlines_def
      del: utf8_decode.simps cp1252_decode.simps)

lemma undecodable_example_delimiter:
  "find_delimiter (\<lambda>n. False) [97, 44, 98] ''cp1252'' =
     Inr \<lparr> peek_code = 1, message = [], peek_delimiter = [44],
           peek_qualifier = [], peek_encoding = ''cp1252'' \<rparr>"
  by (simp add: find_delimiter_def re_split_words_def word_code_point_def str_replace_def
      starts_with_def)

text \<open>
  Claim C4 (the code does not meet it). The file with the bytes of \<open>a,b\<close>, a line feed,
  the byte \<open>0x81\<close> and a line feed: its second line decodes neither as UTF-8 nor as
  cp1252, so it is collected in \<open>bad_lines\<close>. The \<open>PeekResult\<close> of code \<open>-2\<close> is built and
  dropped (line 139 has no \<open>return\<close>), and \<open>peek_file\<close> goes on to find the delimiter: it
  returns code \<open>1\<close> with delimiter \<open>,\<close>, encoding \<open>cp1252\<close> and an empty message.
\<close>

theorem undecodable_lines_not_reported:
  "peek_file (\<lambda>n. False) (Some (code_points ''a,b'' @ [10, 0x81, 10]))
     = Inr \<lparr> peek_code = 1, message = [], peek_delimiter = [44],
             peek_qualifier = [], peek_encoding = ''cp1252'' \<rparr>
   \<and> utf8_decode [0x81, 10] = None \<and> cp1252_decode [0x81, 10] = None"
  by (simp add: peek_file_def undecodable_example_lines undecodable_example_decode
      undecodable_example_delimiter undecodable_example_utf8 undecodable_example_cp1252
      del: utf8_decode.simps cp1252_decode.simps)

subsection \<open>Manual merge table\<close>

text \<open>
  Claim C7 (the code does not meet it). \<open>merge_cells\<close> and \<open>undo_change\<close> address the row as
  \<open>self.bad_delimiters[row - 10]\<close>; \<open>redo_change\<close> assigns to \<open>self.bad_delimiters[change.row]\<close>.
  On a table with one bad-delimiter row, merging columns 2 to 3 of table row 10 merges
  the row and undo restores it, but redo then raises \<open>IndexError\<close> and leaves the row
  unmerged, with the cursor already moved forward. On a table with eleven rows the same
  redo leaves the row unmerged and overwrites the eleventh row with the merged values.
\<close>

theorem redo_change_writes_wrong_row:
  "merge_cells one_row_table 10 2 3 =
     (\<lparr> model_delimiter = '','', current_change = 0,
        table_changes = [BadDelimiterChange 10 2 3 [''2'', ''Bob'', ''hi there'', '' friend'']],
        bad_delimiter_rows = [[''2'', ''Bob'', ''hi there, friend'']] \<rparr>, None)
   \<and> undo_change (fst (merge_cells one_row_table 10 2 3)) =
     (\<lparr> model_delimiter = '','', current_change = - 1,
        table_changes = [BadDelimiterChange 10 2 3 [''2'', ''Bob'', ''hi there'', '' friend'']],
        bad_delimiter_rows = [[''2'', ''Bob'', ''hi there'', '' friend'']] \<rparr>, None)
   \<and> redo_change (fst (undo_change (fst (merge_cells one_row_table 10 2 3)))) =
     (\<lparr> model_delimiter = '','', current_change = 0,
        table_changes = [BadDelimiterChange 10 2 3 [''2'', ''Bob'', ''hi there'', '' friend'']],
        bad_delimiter_rows = [[''2'', ''Bob'', ''hi there'', '' friend'']] \<rparr>, Some IndexError)
   \<and> bad_delimiter_rows
        (fst (redo_change (fst (undo_change (fst (merge_cells eleven_row_table 10 2 3)))))) =
     [''2'', ''Bob'', ''hi there'', '' friend''] # replicate 9 [''3'', ''Eve'', ''a'', ''b'']
       @ [[''2'', ''Bob'', ''hi there, friend'']]"
  by code_simp

end
